theory Spec2Isabelle
  imports Main "HOL-Library.Word"
begin

section \<open>JavaScript values\<close>

text \<open>
  A JavaScript string is a sequence of 16-bit code units. Literals of the source that are
  plain ASCII are written with \<open>ascii\<close>; the Japanese text of the prompt templates is given
  by its code units.
\<close>

type_synonym jsstring = "16 word list"

definition ascii :: "string \<Rightarrow> jsstring" where
  "ascii s = map of_char s"

text \<open>
  The values that \<open>JSON.parse\<close> and property reads produce. A number is held as its
  rendering by \<open>Number.prototype.toString\<close>: the handlers only test numbers for truthiness
  and interpolate them into strings, and both zeros render as \<open>0\<close>. An object is the list
  of its own properties; an earlier binding of a key shadows a later one.
\<close>

datatype js =
    JUndefined
  | JNull
  | JBool bool
  | JNum jsstring
  | JStr jsstring
  | JArr "js list"
  | JObj "(jsstring \<times> js) list"

fun truthy :: "js \<Rightarrow> bool" where
  "truthy JUndefined = False"
| "truthy JNull = False"
| "truthy (JBool b) = b"
| "truthy (JNum r) = (r \<noteq> ascii ''0'' \<and> r \<noteq> ascii ''NaN'')"
| "truthy (JStr s) = (s \<noteq> [])"
| "truthy (JArr xs) = True"
| "truthy (JObj kvs) = True"

fun nullish :: "js \<Rightarrow> bool" where
  "nullish JUndefined = True"
| "nullish JNull = True"
| "nullish v = False"

text \<open>Decimal rendering of a non-negative integer, as for an HTTP status code or an index.\<close>

fun decimal :: "nat \<Rightarrow> jsstring" where
  "decimal n = (if n < 10 then [0x30 + of_nat n] else decimal (n div 10) @ [0x30 + of_nat (n mod 10)])"

declare decimal.simps [simp del]

fun join :: "jsstring \<Rightarrow> jsstring list \<Rightarrow> jsstring" where
  "join sep [] = []"
| "join sep [x] = x"
| "join sep (x # y # ys) = x @ sep @ join sep (y # ys)"

subsection \<open>Exceptions\<close>

text \<open>
  The engine raises a \<open>TypeError\<close> when a property of \<open>undefined\<close> or \<open>null\<close> is read,
  when a value that is not a function is called, and when an object cannot be converted to
  a primitive value. The text of such a message is the
  engine's, so it is a parameter (\<open>type_error_message\<close> below). Every other exception is
  held by its message: those made by \<open>new Error(m)\<close>, and those with which the platform
  rejects \<open>request.json()\<close>, \<open>fetch\<close> and \<open>apiResponse.json()\<close>.
\<close>

datatype fault = ReadOfNullish js jsstring | NotAFunction js jsstring | NotPrimitive js

datatype exn = Error jsstring | TypeError fault

subsection \<open>\<open>ToString\<close>\<close>

text \<open>
  \<open>ToString\<close>, as applied by template literals and by \<open>new Error(v)\<close>. An object is
  converted through its \<open>toString\<close> property and then its \<open>valueOf\<close> property. A parsed
  object inherits the \<open>toString\<close> that gives \<open>[object Object]\<close>. When it has an own
  property \<open>toString\<close>, that is a parsed value and no function, and \<open>valueOf\<close> gives no
  primitive value either (the inherited one returns the object, an own one is no function):
  the conversion throws. An array joins the conversions of its elements with commas, taking
  \<open>undefined\<close> and \<open>null\<close> as the empty string.
\<close>

fun toString :: "js \<Rightarrow> exn + jsstring" and toStrings :: "js list \<Rightarrow> exn + jsstring list" where
  "toString JUndefined = Inr (ascii ''undefined'')"
| "toString JNull = Inr (ascii ''null'')"
| "toString (JBool b) = Inr (if b then ascii ''true'' else ascii ''false'')"
| "toString (JNum r) = Inr r"
| "toString (JStr s) = Inr s"
| "toString (JArr xs) =
     (case toStrings xs of Inl e \<Rightarrow> Inl e | Inr ss \<Rightarrow> Inr (join (ascii '','') ss))"
| "toString (JObj kvs) =
     (if map_of kvs (ascii ''toString'') = None then Inr (ascii ''[object Object]'')
      else Inl (TypeError (NotPrimitive (JObj kvs))))"
| "toStrings [] = Inr []"
| "toStrings (x # xs) =
     (case (if nullish x then Inr [] else toString x) of
        Inl e \<Rightarrow> Inl e
      | Inr s \<Rightarrow> (case toStrings xs of Inl e \<Rightarrow> Inl e | Inr ss \<Rightarrow> Inr (s # ss)))"

text \<open>A template literal with one interpolated value: the text before, the value, the text after.\<close>

definition template :: "jsstring \<Rightarrow> js \<Rightarrow> jsstring \<Rightarrow> exn + jsstring" where
  "template before v after =
     (case toString v of Inl e \<Rightarrow> Inl e | Inr s \<Rightarrow> Inr (before @ s @ after))"

subsection \<open>Property reads\<close>

datatype accessor = Prop jsstring | Idx nat

text \<open>
  \<open>own v p\<close> is \<open>v.p\<close> and \<open>elem v i\<close> is \<open>v[i]\<close> for a \<open>v\<close> that is neither \<open>undefined\<close> nor
  \<open>null\<close>. Inherited properties are not modelled: the handlers read only \<open>text\<close>, \<open>mode\<close>,
  \<open>candidates\<close>, \<open>content\<close>, \<open>parts\<close>, \<open>error\<close> and \<open>message\<close>, which no prototype of a
  parsed JSON value defines.
\<close>

definition lookup :: "(jsstring \<times> js) list \<Rightarrow> jsstring \<Rightarrow> js" where
  "lookup kvs p = (case map_of kvs p of None \<Rightarrow> JUndefined | Some v \<Rightarrow> v)"

fun own :: "js \<Rightarrow> jsstring \<Rightarrow> js" where
  "own (JObj kvs) p = lookup kvs p"
| "own v p = JUndefined"

fun elem :: "js \<Rightarrow> nat \<Rightarrow> js" where
  "elem (JArr xs) i = (if i < length xs then xs ! i else JUndefined)"
| "elem (JStr s) i = (if i < length s then JStr [s ! i] else JUndefined)"
| "elem (JObj kvs) i = lookup kvs (decimal i)"
| "elem v i = JUndefined"

fun read :: "js \<Rightarrow> accessor \<Rightarrow> exn + js" where
  "read v (Prop p) = (if nullish v then Inl (TypeError (ReadOfNullish v p)) else Inr (own v p))"
| "read v (Idx i) =
     (if nullish v then Inl (TypeError (ReadOfNullish v (decimal i))) else Inr (elem v i))"

text \<open>A chain of reads such as \<open>v.candidates[0].content\<close>, left to right; the first failing read throws.\<close>

fun access :: "js \<Rightarrow> accessor list \<Rightarrow> exn + js" where
  "access v [] = Inr v"
| "access v (a # as) = (case read v a of Inl e \<Rightarrow> Inl e | Inr w \<Rightarrow> access w as)"

text \<open>\<open>a && b\<close> and \<open>a || b\<close>; the right operand is used only when the left one decides nothing.\<close>

definition and_also :: "exn + js \<Rightarrow> exn + js \<Rightarrow> exn + js" where
  "and_also a b = (case a of Inl e \<Rightarrow> Inl e | Inr v \<Rightarrow> if truthy v then b else Inr v)"

definition or_else :: "js \<Rightarrow> js \<Rightarrow> js" where
  "or_else v d = (if truthy v then v else d)"

text \<open>\<open>a?.rest\<close>: when \<open>a\<close> is \<open>undefined\<close> or \<open>null\<close> the rest of the chain is skipped.\<close>

definition optional :: "exn + js \<Rightarrow> (js \<Rightarrow> exn + js) \<Rightarrow> exn + js" where
  "optional a rest = (case a of Inl e \<Rightarrow> Inl e | Inr v \<Rightarrow> if nullish v then Inr JUndefined else rest v)"

subsection \<open>\<open>String.prototype.trim\<close>\<close>

text \<open>The code units of ECMAScript's \<open>WhiteSpace\<close> and \<open>LineTerminator\<close>.\<close>

definition isWhiteSpace :: "16 word \<Rightarrow> bool" where
  "isWhiteSpace c \<longleftrightarrow> c \<in> {0x09, 0x0A, 0x0B, 0x0C, 0x0D, 0x20, 0xA0, 0x1680,
      0x2000, 0x2001, 0x2002, 0x2003, 0x2004, 0x2005, 0x2006, 0x2007, 0x2008, 0x2009, 0x200A,
      0x2028, 0x2029, 0x202F, 0x205F, 0x3000, 0xFEFF}"

definition trim :: "jsstring \<Rightarrow> jsstring" where
  "trim s = rev (dropWhile isWhiteSpace (rev (dropWhile isWhiteSpace s)))"

text \<open>\<open>v.trim()\<close>: only a string has the method.\<close>

fun call_trim :: "js \<Rightarrow> exn + jsstring" where
  "call_trim (JStr s) = Inr (trim s)"
| "call_trim v =
     (if nullish v then Inl (TypeError (ReadOfNullish v (ascii ''trim'')))
      else Inl (TypeError (NotAFunction v (ascii ''trim''))))"

section \<open>The platform\<close>

text \<open>
  A body is either a string given as it is, or \<open>JSON.stringify\<close> of a value. A \<open>Response\<close>
  is built from a body, a status and headers.
\<close>

datatype body = Text jsstring | JSON_stringify js

record response =
  body :: body
  status :: nat
  headers :: "(jsstring \<times> jsstring) list"

text \<open>
  What the handler passes to \<open>fetch\<close>, and what it reads of the answer. The platform sets
  \<open>ok\<close> when the status is in the range 200 to 299; the handlers read the flag only.
\<close>

record fetch_call =
  url :: jsstring
  fetch_method :: jsstring
  fetch_headers :: "(jsstring \<times> jsstring) list"
  fetch_body :: body

record api_response =
  api_ok :: bool
  api_status :: nat
  api_statusText :: jsstring
  api_json :: "exn + js"

text \<open>
  The \<open>context\<close> argument: the request, with its method and the outcome of parsing its
  body as JSON, and the environment bindings.
\<close>

record request =
  request_method :: jsstring
  json :: "exn + js"

record env =
  GEMINI_API_KEY :: js

record event_context =
  request :: request
  env :: env

text \<open>The ambient runtime: the outcome of \<open>fetch\<close> for a call, and the engine's messages.\<close>

record runtime =
  fetch :: "fetch_call \<Rightarrow> exn + api_response"
  type_error_message :: "fault \<Rightarrow> jsstring"

fun message :: "runtime \<Rightarrow> exn \<Rightarrow> jsstring" where
  "message rt (Error m) = m"
| "message rt (TypeError f) = type_error_message rt f"

text \<open>
  The effects of one invocation, in order: reading the request body, the call to the
  upstream API, reading the upstream body, and the console output.
\<close>

datatype logged = LValue js | LExn exn

datatype event =
    Request_json
  | Fetch fetch_call
  | ApiResponse_json
  | ConsoleError jsstring logged
  | ConsoleWarn jsstring logged

definition json_response :: "nat \<Rightarrow> js \<Rightarrow> response" where
  "json_response s v =
     \<lparr>body = JSON_stringify v, status = s,
      headers = [(ascii ''Content-Type'', ascii ''application/json'')]\<rparr>"

definition method_not_allowed :: response where
  "method_not_allowed = \<lparr>body = Text (ascii ''Method Not Allowed''), status = 405, headers = []\<rparr>"

definition error_response :: "nat \<Rightarrow> jsstring \<Rightarrow> response" where
  "error_response s m = json_response s (JObj [(ascii ''error'', JStr m)])"

definition translation_response :: "jsstring \<Rightarrow> response" where
  "translation_response t = json_response 200 (JObj [(ascii ''translation'', JStr t)])"

section \<open>The upstream request\<close>

definition geminiApiUrl :: "js \<Rightarrow> exn + jsstring" where
  "geminiApiUrl key =
     template
       (ascii ''https://generativelanguage.googleapis.com/v1beta/models/gemini-2.5-flash:generateContent?key='')
       key []"

definition safetySetting :: "string \<Rightarrow> js" where
  "safetySetting c =
     JObj [(ascii ''category'', JStr (ascii c)),
           (ascii ''threshold'', JStr (ascii ''BLOCK_MEDIUM_AND_ABOVE''))]"

definition apiRequestBody :: "jsstring \<Rightarrow> js" where
  "apiRequestBody prompt =
     JObj [(ascii ''contents'',
              JArr [JObj [(ascii ''parts'', JArr [JObj [(ascii ''text'', JStr prompt)]])]]),
           (ascii ''safetySettings'',
              JArr [safetySetting ''HARM_CATEGORY_HARASSMENT'',
                    safetySetting ''HARM_CATEGORY_HATE_SPEECH'',
                    safetySetting ''HARM_CATEGORY_SEXUALLY_EXPLICIT'',
                    safetySetting ''HARM_CATEGORY_DANGEROUS_CONTENT''])]"

definition gemini_call :: "jsstring \<Rightarrow> jsstring \<Rightarrow> fetch_call" where
  "gemini_call apiUrl prompt =
     \<lparr>url = apiUrl,
      fetch_method = ascii ''POST'',
      fetch_headers = [(ascii ''Content-Type'', ascii ''application/json'')],
      fetch_body = JSON_stringify (apiRequestBody prompt)\<rparr>"

definition fallback :: jsstring where
  "fallback = ascii ''Translation not found.''"

text \<open>The links of the path \<open>candidates[0].content.parts[0].text\<close> of the upstream answer.\<close>

definition dot_candidates :: accessor where
  "dot_candidates = Prop (ascii ''candidates'')"

definition dot_content :: accessor where
  "dot_content = Prop (ascii ''content'')"

definition dot_parts :: accessor where
  "dot_parts = Prop (ascii ''parts'')"

definition dot_text :: accessor where
  "dot_text = Prop (ascii ''text'')"

text \<open>The common end of both handlers: trim the translation and answer with status 200.\<close>

definition respond_trimmed :: "js \<Rightarrow> exn + response" where
  "respond_trimmed translation =
     (case call_trim translation of Inl e \<Rightarrow> Inl e | Inr t \<Rightarrow> Inr (translation_response t))"

text \<open>The \<open>catch\<close> block of both handlers.\<close>

definition catch_all :: "runtime \<Rightarrow> (exn + response) \<times> event list \<Rightarrow> response \<times> event list" where
  "catch_all rt r =
     (case r of
        (Inr resp, tr) \<Rightarrow> (resp, tr)
      | (Inl error, tr) \<Rightarrow>
          (error_response 500 (message rt error),
           tr @ [ConsoleError (ascii ''Error in function:'') (LExn error)]))"

section \<open>The bidirectional handler (\<open>functions/api/chat.js\<close>)\<close>

text \<open>Lines 43 to 51: the two templates, before and after the interpolated text.\<close>

definition toLeet_head :: jsstring where
  "toLeet_head =
     [0x3042, 0x306A, 0x305F, 0x306F, 0x30A4, 0x30F3, 0x30BF, 0x30FC, 0x30CD, 0x30C3,
      0x30C8, 0x30B9, 0x30E9, 0x30F3, 0x30B0, 0x306E, 0x5C02, 0x9580, 0x5BB6, 0x3067,
      0x3059, 0x3002, 0x4EE5, 0x4E0B, 0x306E, 0x300C, 0x82F1, 0x8A9E, 0x300D, 0x3092,
      0x3001, 0x6587, 0x8108, 0x3092, 0x8AAD, 0x307F, 0x53D6, 0x308A, 0x3064, 0x3064,
      0x3001, 0x53EF, 0x80FD, 0x306A, 0x9650, 0x308A, 0x300C] @
     ascii ''Leet'' @
     [0x8A9E, 0xFF08] @
     ascii ''1337 speak'' @
     [0xFF09, 0x300D, 0x306B, 0x7FFB, 0x8A33, 0x3057, 0x3066, 0x304F, 0x3060, 0x3055,
      0x3044, 0x3002, 0x5358, 0x306A, 0x308B, 0x6587, 0x5B57, 0x306E, 0x7F6E, 0x304D,
      0x63DB, 0x3048, 0xFF08] @
     ascii ''A=4'' @
     [0x306A, 0x3069, 0xFF09, 0x3060, 0x3051, 0x3067, 0x306A, 0x304F, 0x3001, 0x30B9,
      0x30E9, 0x30F3, 0x30B0, 0xFF08] @
     ascii ''you=j00'' @
     [0x306A, 0x3069, 0xFF09, 0x3082, 0x4F7F, 0x3063, 0x3066, 0x304F, 0x3060, 0x3055,
      0x3044, 0x3002, 0x7FFB, 0x8A33, 0x7D50, 0x679C, 0x306E, 0x30C6, 0x30AD, 0x30B9,
      0x30C8, 0x3060, 0x3051, 0x3092, 0x8FD4, 0x3057, 0x3066, 0x304F, 0x3060, 0x3055,
      0x3044, 0x3002, 0x000A, 0x000A, 0x82F1, 0x8A9E] @
     ascii '': '' @
     [0x0022]"

definition toLeet_tail :: jsstring where
  "toLeet_tail =
     [0x0022, 0x000A] @
     ascii ''Leet'' @
     [0x8A9E, 0x7FFB, 0x8A33, 0x003A]"

definition fromLeet_head :: jsstring where
  "fromLeet_head =
     [0x3042, 0x306A, 0x305F, 0x306F, 0x30A4, 0x30F3, 0x30BF, 0x30FC, 0x30CD, 0x30C3,
      0x30C8, 0x30B9, 0x30E9, 0x30F3, 0x30B0, 0x306E, 0x5C02, 0x9580, 0x5BB6, 0x3067,
      0x3059, 0x3002, 0x4EE5, 0x4E0B, 0x306E, 0x300C] @
     ascii ''Leet'' @
     [0x8A9E, 0xFF08] @
     ascii ''1337 speak'' @
     [0xFF09, 0x300D, 0x3092, 0x3001, 0x6587, 0x8108, 0x3092, 0x63A8, 0x6E2C, 0x3057,
      0x3066, 0x81EA, 0x7136, 0x306A, 0x300C, 0x82F1, 0x8A9E, 0x300D, 0x306B, 0x7FFB,
      0x8A33, 0x3057, 0x3066, 0x304F, 0x3060, 0x3055, 0x3044, 0x3002, 0x7FFB, 0x8A33,
      0x7D50, 0x679C, 0x306E, 0x30C6, 0x30AD, 0x30B9, 0x30C8, 0x3060, 0x3051, 0x3092,
      0x8FD4, 0x3057, 0x3066, 0x304F, 0x3060, 0x3055, 0x3044, 0x3002, 0x000A, 0x000A] @
     ascii ''Leet'' @
     [0x8A9E] @
     ascii '': '' @
     [0x0022]"

definition fromLeet_tail :: jsstring where
  "fromLeet_tail =
     [0x0022, 0x000A, 0x82F1, 0x8A9E, 0x7FFB, 0x8A33, 0x003A]"

definition prompt_chat :: "js \<Rightarrow> js \<Rightarrow> exn + jsstring" where
  "prompt_chat mode inputText =
     (if mode = JStr (ascii ''toLeet'')
      then template toLeet_head inputText toLeet_tail
      else template fromLeet_head inputText fromLeet_tail)"

text \<open>Lines 86 to 101: the guarded extraction of the translation.\<close>

definition structure_ok :: "js \<Rightarrow> exn + js" where
  "structure_ok responseData =
     and_also (access responseData [dot_candidates])
    (and_also (access responseData [dot_candidates, Idx 0])
    (and_also (access responseData [dot_candidates, Idx 0, dot_content])
    (and_also (access responseData [dot_candidates, Idx 0, dot_content, dot_parts])
    (and_also (access responseData [dot_candidates, Idx 0, dot_content, dot_parts, Idx 0])
              (access responseData [dot_candidates, Idx 0, dot_content, dot_parts, Idx 0, dot_text])))))"

definition extract_chat :: "js \<Rightarrow> (exn + response) \<times> event list" where
  "extract_chat responseData =
     (case structure_ok responseData of
        Inl e \<Rightarrow> (Inl e, [])
      | Inr c \<Rightarrow>
          if truthy c
          then (case access responseData [dot_candidates, Idx 0, dot_content, dot_parts, Idx 0, dot_text] of
                  Inl e \<Rightarrow> (Inl e, [])
                | Inr translation \<Rightarrow> (respond_trimmed translation, []))
          else (respond_trimmed (JStr fallback),
                [ConsoleWarn (ascii ''Unexpected Gemini response structure:'') (LValue responseData)]))"

text \<open>
  Lines 77 to 84: a failed upstream call throws the upstream's message, or the status. The
  message of \<open>new Error(v)\<close> is \<open>ToString\<close> of \<open>v\<close>; when that conversion throws, its
  \<open>TypeError\<close> is what leaves the block.
\<close>

definition api_error_chat :: "api_response \<Rightarrow> js \<Rightarrow> exn" where
  "api_error_chat apiResponse errorBody =
     (case optional (access errorBody [Prop (ascii ''error'')])
             (\<lambda>e. access e [Prop (ascii ''message'')]) of
        Inl e \<Rightarrow> e
      | Inr m \<Rightarrow>
          (case toString (or_else m
                  (JStr (ascii ''Gemini API error: '' @ decimal (api_status apiResponse)))) of
             Inl e \<Rightarrow> e
           | Inr s \<Rightarrow> Error s))"

definition after_fetch_chat :: "api_response \<Rightarrow> (exn + response) \<times> event list" where
  "after_fetch_chat apiResponse =
     (if \<not> api_ok apiResponse
      then (case api_json apiResponse of
              Inl e \<Rightarrow> (Inl e, [ApiResponse_json])
            | Inr errorBody \<Rightarrow>
                (Inl (api_error_chat apiResponse errorBody),
                 [ApiResponse_json, ConsoleError (ascii ''Gemini API error:'') (LValue errorBody)]))
      else (case api_json apiResponse of
              Inl e \<Rightarrow> (Inl e, [ApiResponse_json])
            | Inr responseData \<Rightarrow>
                (case extract_chat responseData of (r, tr) \<Rightarrow> (r, ApiResponse_json # tr))))"

text \<open>
  Lines 23 to 102: the \<open>try\<close> block. The URL and the prompt are template literals, built
  before the call; a conversion that throws there ends the block before anything is fetched.
\<close>

definition try_chat :: "runtime \<Rightarrow> event_context \<Rightarrow> js \<Rightarrow> (exn + response) \<times> event list" where
  "try_chat rt ctx key =
     (case json (request ctx) of
        Inl e \<Rightarrow> (Inl e, [Request_json])
      | Inr requestData \<Rightarrow>
          (case access requestData [Prop (ascii ''text'')] of
             Inl e \<Rightarrow> (Inl e, [Request_json])
           | Inr inputText \<Rightarrow>
               (case access requestData [Prop (ascii ''mode'')] of
                  Inl e \<Rightarrow> (Inl e, [Request_json])
                | Inr mode \<Rightarrow>
                    if \<not> truthy inputText \<or> \<not> truthy mode
                    then (Inr (error_response 400 (ascii ''No text or mode provided'')), [Request_json])
                    else (case geminiApiUrl key of
                            Inl e \<Rightarrow> (Inl e, [Request_json])
                          | Inr apiUrl \<Rightarrow>
                              (case prompt_chat mode inputText of
                                 Inl e \<Rightarrow> (Inl e, [Request_json])
                               | Inr prompt \<Rightarrow>
                                   (case fetch rt (gemini_call apiUrl prompt) of
                                      Inl e \<Rightarrow> (Inl e, [Request_json, Fetch (gemini_call apiUrl prompt)])
                                    | Inr apiResponse \<Rightarrow>
                                        (case after_fetch_chat apiResponse of
                                           (r, tr) \<Rightarrow>
                                             (r, [Request_json, Fetch (gemini_call apiUrl prompt)] @ tr))))))))"

definition onRequest_chat :: "runtime \<Rightarrow> event_context \<Rightarrow> response \<times> event list" where
  "onRequest_chat rt ctx =
     (if request_method (request ctx) \<noteq> ascii ''POST'' then (method_not_allowed, [])
      else if \<not> truthy (GEMINI_API_KEY (env ctx))
      then (error_response 500 (ascii ''GEMINI_API_KEY is not set in Cloudflare''), [])
      else catch_all rt (try_chat rt ctx (GEMINI_API_KEY (env ctx))))"

section \<open>The single-direction handler (\<open>unnamed/part_000\<close>)\<close>

text \<open>Lines 38 to 41: the template, before and after the interpolated text.\<close>

definition leet_head :: jsstring where
  "leet_head =
     [0x3042, 0x306A, 0x305F, 0x306F, 0x30A4, 0x30F3, 0x30BF, 0x30FC, 0x30CD, 0x30C3,
      0x30C8, 0x30B9, 0x30E9, 0x30F3, 0x30B0, 0x306E, 0x5C02, 0x9580, 0x5BB6, 0x3067,
      0x3059, 0x3002, 0x4EE5, 0x4E0B, 0x306E, 0x300C] @
     ascii ''Leet'' @
     [0x8A9E, 0xFF08] @
     ascii ''1337 speak'' @
     [0xFF09, 0x300D, 0x3092, 0x3001, 0x6587, 0x8108, 0x3092, 0x63A8, 0x6E2C, 0x3057,
      0x3066, 0x81EA, 0x7136, 0x306A, 0x82F1, 0x8A9E, 0x306B, 0x7FFB, 0x8A33, 0x3057,
      0x3066, 0x304F, 0x3060, 0x3055, 0x3044, 0x3002, 0x7FFB, 0x8A33, 0x7D50, 0x679C,
      0x3060, 0x3051, 0x3092, 0x8FD4, 0x3057, 0x3066, 0x304F, 0x3060, 0x3055, 0x3044,
      0x3002, 0x000A, 0x000A] @
     ascii ''Leet'' @
     [0x8A9E] @
     ascii '': '' @
     [0x0022]"

definition leet_tail :: jsstring where
  "leet_tail =
     [0x0022, 0x000A, 0x82F1, 0x8A9E, 0x7FFB, 0x8A33, 0x003A]"

definition prompt_part_000 :: "js \<Rightarrow> exn + jsstring" where
  "prompt_part_000 leetText = template leet_head leetText leet_tail"

text \<open>Line 74: \<open>responseData.candidates[0]?.content?.parts[0]?.text || "Translation not found."\<close>\<close>

definition extract_part_000 :: "js \<Rightarrow> exn + js" where
  "extract_part_000 responseData =
     (case optional (access responseData [dot_candidates, Idx 0])
             (\<lambda>c. optional (access c [dot_content])
               (\<lambda>t. optional (access t [dot_parts, Idx 0])
                 (\<lambda>p. access p [dot_text]))) of
        Inl e \<Rightarrow> Inl e
      | Inr v \<Rightarrow> Inr (or_else v (JStr fallback)))"

definition after_fetch_part_000 :: "api_response \<Rightarrow> (exn + response) \<times> event list" where
  "after_fetch_part_000 apiResponse =
     (if \<not> api_ok apiResponse
      then (Inl (Error (ascii ''Gemini API error: '' @ decimal (api_status apiResponse) @ ascii '' ''
                        @ api_statusText apiResponse)), [])
      else (case api_json apiResponse of
              Inl e \<Rightarrow> (Inl e, [ApiResponse_json])
            | Inr responseData \<Rightarrow>
                (case extract_part_000 responseData of
                   Inl e \<Rightarrow> (Inl e, [ApiResponse_json])
                 | Inr translation \<Rightarrow> (respond_trimmed translation, [ApiResponse_json]))))"

definition try_part_000 :: "runtime \<Rightarrow> event_context \<Rightarrow> js \<Rightarrow> (exn + response) \<times> event list" where
  "try_part_000 rt ctx key =
     (case json (request ctx) of
        Inl e \<Rightarrow> (Inl e, [Request_json])
      | Inr requestData \<Rightarrow>
          (case access requestData [Prop (ascii ''text'')] of
             Inl e \<Rightarrow> (Inl e, [Request_json])
           | Inr leetText \<Rightarrow>
               if \<not> truthy leetText
               then (Inr (error_response 400 (ascii ''No text provided'')), [Request_json])
               else (case geminiApiUrl key of
                       Inl e \<Rightarrow> (Inl e, [Request_json])
                     | Inr apiUrl \<Rightarrow>
                         (case prompt_part_000 leetText of
                            Inl e \<Rightarrow> (Inl e, [Request_json])
                          | Inr prompt \<Rightarrow>
                              (case fetch rt (gemini_call apiUrl prompt) of
                                 Inl e \<Rightarrow> (Inl e, [Request_json, Fetch (gemini_call apiUrl prompt)])
                               | Inr apiResponse \<Rightarrow>
                                   (case after_fetch_part_000 apiResponse of
                                      (r, tr) \<Rightarrow>
                                        (r, [Request_json, Fetch (gemini_call apiUrl prompt)] @ tr)))))))"

definition onRequest_part_000 :: "runtime \<Rightarrow> event_context \<Rightarrow> response \<times> event list" where
  "onRequest_part_000 rt ctx =
     (if request_method (request ctx) \<noteq> ascii ''POST'' then (method_not_allowed, [])
      else if \<not> truthy (GEMINI_API_KEY (env ctx))
      then (error_response 500 (ascii ''GEMINI_API_KEY is not set''), [])
      else catch_all rt (try_part_000 rt ctx (GEMINI_API_KEY (env ctx))))"

section \<open>Notions used in the properties\<close>

text \<open>The upstream calls among the effects of an invocation.\<close>

fun fetches :: "event list \<Rightarrow> fetch_call list" where
  "fetches [] = []"
| "fetches (Fetch c # es) = c # fetches es"
| "fetches (e # es) = fetches es"

text \<open>
  A request that passes every gate of the bidirectional handler: the method is POST, the
  key is configured, the body parses, and its \<open>text\<close> and \<open>mode\<close> are truthy.
\<close>

definition accepted_chat :: "event_context \<Rightarrow> js \<Rightarrow> js \<Rightarrow> bool" where
  "accepted_chat ctx inputText mode \<longleftrightarrow>
     request_method (request ctx) = ascii ''POST'' \<and> truthy (GEMINI_API_KEY (env ctx)) \<and>
     (case json (request ctx) of
        Inl e \<Rightarrow> False
      | Inr requestData \<Rightarrow>
          access requestData [Prop (ascii ''text'')] = Inr inputText \<and>
          access requestData [Prop (ascii ''mode'')] = Inr mode) \<and>
     truthy inputText \<and> truthy mode"

text \<open>The same for the single-direction handler, which reads \<open>text\<close> only.\<close>

definition accepted_part_000 :: "event_context \<Rightarrow> js \<Rightarrow> bool" where
  "accepted_part_000 ctx leetText \<longleftrightarrow>
     request_method (request ctx) = ascii ''POST'' \<and> truthy (GEMINI_API_KEY (env ctx)) \<and>
     (case json (request ctx) of
        Inl e \<Rightarrow> False
      | Inr requestData \<Rightarrow> access requestData [Prop (ascii ''text'')] = Inr leetText) \<and>
     truthy leetText"

text \<open>
  The expression \<open>responseData.candidates[0].content.parts[0].text\<close>, evaluated link by
  link: it throws when a link is read of \<open>undefined\<close> or \<open>null\<close>.
\<close>

definition text_path :: "accessor list" where
  "text_path = [dot_candidates, Idx 0, dot_content, dot_parts, Idx 0, dot_text]"

text \<open>
  The same reads without the failure: \<open>own\<close> and \<open>elem\<close> give \<open>undefined\<close> on a value that
  has no such property, so \<open>text_of\<close> is \<open>undefined\<close> as soon as a link is missing.
\<close>

definition text_of :: "js \<Rightarrow> js" where
  "text_of responseData =
     own (elem (own (own (elem (own responseData (ascii ''candidates'')) 0) (ascii ''content''))
       (ascii ''parts'')) 0) (ascii ''text'')"

text \<open>
  What the specification asks of the returned translation: \<open>t\<close> is \<open>s\<close> without its leading
  and trailing whitespace.
\<close>

definition stripped :: "jsstring \<Rightarrow> jsstring \<Rightarrow> bool" where
  "stripped s t \<longleftrightarrow>
     (\<exists>a b. s = a @ t @ b \<and> list_all isWhiteSpace a \<and> list_all isWhiteSpace b) \<and>
     (t \<noteq> [] \<longrightarrow> \<not> isWhiteSpace (hd t) \<and> \<not> isWhiteSpace (last t))"

text \<open>
  \<open>errorBody.error?.message\<close> for an \<open>errorBody\<close> that is neither \<open>undefined\<close> nor \<open>null\<close>:
  \<open>undefined\<close> when \<open>error\<close> or \<open>message\<close> is missing.
\<close>

definition upstream_message :: "js \<Rightarrow> js" where
  "upstream_message errorBody = own (own errorBody (ascii ''error'')) (ascii ''message'')"

text \<open>
  The prompt that an upstream call carries: the text of the first part of the first content
  of its JSON body.
\<close>

definition sent_prompt :: "fetch_call \<Rightarrow> exn + js" where
  "sent_prompt c =
     (case fetch_body c of
        Text s \<Rightarrow> Inr JUndefined
      | JSON_stringify v \<Rightarrow>
          access v [Prop (ascii ''contents''), Idx 0, Prop (ascii ''parts''), Idx 0, Prop (ascii ''text'')])"

section \<open>Example inputs\<close>

text \<open>Messages in the style of V8, the engine of the platform.\<close>

fun v8_message :: "fault \<Rightarrow> jsstring" where
  "v8_message (ReadOfNullish v p) =
     ascii ''Cannot read properties of '' @ (if v = JNull then ascii ''null'' else ascii ''undefined'')
     @ ascii '' (reading '' @ [0x27] @ p @ [0x27] @ ascii '')''"
| "v8_message (NotAFunction v p) = ascii ''translation.'' @ p @ ascii '' is not a function''"
| "v8_message (NotPrimitive v) = ascii ''Cannot convert object to primitive value''"

definition answering :: "exn + api_response \<Rightarrow> runtime" where
  "answering r = \<lparr>fetch = (\<lambda>c. r), type_error_message = v8_message\<rparr>"

definition incoming :: "jsstring \<Rightarrow> js \<Rightarrow> exn + js \<Rightarrow> event_context" where
  "incoming m key b = \<lparr>request = \<lparr>request_method = m, json = b\<rparr>, env = \<lparr>GEMINI_API_KEY = key\<rparr>\<rparr>"

definition secret :: js where
  "secret = JStr (ascii ''secret'')"

definition secret_url :: jsstring where
  "secret_url =
     ascii ''https://generativelanguage.googleapis.com/v1beta/models/gemini-2.5-flash:generateContent?key=secret''"

definition translate_request :: "string \<Rightarrow> string \<Rightarrow> js" where
  "translate_request t m = JObj [(ascii ''text'', JStr (ascii t)), (ascii ''mode'', JStr (ascii m))]"

definition success :: "js \<Rightarrow> api_response" where
  "success d = \<lparr>api_ok = True, api_status = 200, api_statusText = ascii ''OK'', api_json = Inr d\<rparr>"

definition candidate_text :: "js \<Rightarrow> js" where
  "candidate_text t =
     JObj [(ascii ''candidates'',
            JArr [JObj [(ascii ''content'', JObj [(ascii ''parts'', JArr [JObj [(ascii ''text'', t)]])])]])]"

definition quota_exceeded :: api_response where
  "quota_exceeded =
     \<lparr>api_ok = False, api_status = 429, api_statusText = ascii ''Too Many Requests'',
      api_json = Inr (JObj [(ascii ''error'', JObj [(ascii ''message'', JStr (ascii ''quota exceeded''))])])\<rparr>"

section \<open>Basic facts\<close>

lemma truthy_not_nullish: "truthy v \<Longrightarrow> \<not> nullish v"
  by (cases v) simp_all

lemma own_falsy: "\<not> truthy v \<Longrightarrow> own v p = JUndefined"
  by (cases v) simp_all

lemma elem_falsy: "\<not> truthy v \<Longrightarrow> elem v i = JUndefined"
  by (cases v) simp_all

lemma fetches_append: "fetches (xs @ ys) = fetches xs @ fetches ys"
  by (induction xs rule: fetches.induct) simp_all

lemma trim_fallback: "trim fallback = fallback"
  by (simp add: trim_def fallback_def ascii_def isWhiteSpace_def)

lemma respond_fallback: "respond_trimmed (JStr fallback) = Inr (translation_response fallback)"
  by (simp add: respond_trimmed_def trim_fallback)

lemma rev_drop_take: "rev (dropWhile P (rev xs)) @ rev (takeWhile P (rev xs)) = xs"
proof -
  have "rev (takeWhile P (rev xs) @ dropWhile P (rev xs)) = xs"
    by (simp only: takeWhile_dropWhile_id rev_rev_ident)
  then show ?thesis
    by (simp only: rev_append)
qed

lemma trim_splits:
  "\<exists>a b. s = a @ trim s @ b \<and> list_all isWhiteSpace a \<and> list_all isWhiteSpace b"
proof -
  define d where "d = dropWhile isWhiteSpace s"
  define a where "a = takeWhile isWhiteSpace s"
  define b where "b = rev (takeWhile isWhiteSpace (rev d))"
  have s: "s = a @ d"
    by (simp add: a_def d_def)
  have d: "d = trim s @ b"
    unfolding trim_def b_def d_def by (simp only: rev_drop_take)
  have wa: "list_all isWhiteSpace a"
    unfolding a_def list_all_iff by (auto dest: set_takeWhileD)
  have wb: "list_all isWhiteSpace b"
    unfolding b_def list_all_iff by (auto dest: set_takeWhileD)
  from s d wa wb show ?thesis by blast
qed

lemma trim_ends:
  assumes "trim s \<noteq> []"
  shows "\<not> isWhiteSpace (hd (trim s))" and "\<not> isWhiteSpace (last (trim s))"
proof -
  define d where "d = dropWhile isWhiteSpace s"
  have t: "trim s = rev (dropWhile isWhiteSpace (rev d))"
    by (simp add: trim_def d_def)
  from assms t have ne: "dropWhile isWhiteSpace (rev d) \<noteq> []"
    by simp
  then show "\<not> isWhiteSpace (last (trim s))"
    using hd_dropWhile [OF ne] by (simp add: t last_rev)
  have d: "d = trim s @ rev (takeWhile isWhiteSpace (rev d))"
    unfolding t by (simp only: rev_drop_take)
  with assms have hd: "hd d = hd (trim s)" and dne: "d \<noteq> []"
    by (metis hd_append2, metis append_is_Nil_conv)
  from dne have "\<not> isWhiteSpace (hd d)"
    unfolding d_def by (rule hd_dropWhile)
  with hd show "\<not> isWhiteSpace (hd (trim s))" by simp
qed

lemma stripped_trim: "stripped s (trim s)"
  unfolding stripped_def using trim_splits [of s] trim_ends [of s] by blast

section \<open>The stages of the handlers\<close>

text \<open>An accepted request reaches the construction of the URL and of the prompt.\<close>

lemma onRequest_chat_accepted:
  assumes "accepted_chat ctx inputText mode"
  shows "onRequest_chat rt ctx =
     catch_all rt
       (case geminiApiUrl (GEMINI_API_KEY (env ctx)) of
          Inl e \<Rightarrow> (Inl e, [Request_json])
        | Inr u \<Rightarrow>
            (case prompt_chat mode inputText of
               Inl e \<Rightarrow> (Inl e, [Request_json])
             | Inr p \<Rightarrow>
                 (case fetch rt (gemini_call u p) of
                    Inl e \<Rightarrow> (Inl e, [Request_json, Fetch (gemini_call u p)])
                  | Inr r \<Rightarrow>
                      (case after_fetch_chat r of
                         (x, tr) \<Rightarrow> (x, [Request_json, Fetch (gemini_call u p)] @ tr)))))"
  using assms
  by (auto simp: accepted_chat_def onRequest_chat_def try_chat_def split: sum.splits)

lemma onRequest_part_000_accepted:
  assumes "accepted_part_000 ctx leetText"
  shows "onRequest_part_000 rt ctx =
     catch_all rt
       (case geminiApiUrl (GEMINI_API_KEY (env ctx)) of
          Inl e \<Rightarrow> (Inl e, [Request_json])
        | Inr u \<Rightarrow>
            (case prompt_part_000 leetText of
               Inl e \<Rightarrow> (Inl e, [Request_json])
             | Inr p \<Rightarrow>
                 (case fetch rt (gemini_call u p) of
                    Inl e \<Rightarrow> (Inl e, [Request_json, Fetch (gemini_call u p)])
                  | Inr r \<Rightarrow>
                      (case after_fetch_part_000 r of
                         (x, tr) \<Rightarrow> (x, [Request_json, Fetch (gemini_call u p)] @ tr)))))"
  using assms
  by (auto simp: accepted_part_000_def onRequest_part_000_def try_part_000_def split: sum.splits)

text \<open>When the call is built and the upstream answers, the rest is decided by the answer.\<close>

lemma onRequest_chat_answered:
  assumes "accepted_chat ctx inputText mode \<and> geminiApiUrl (GEMINI_API_KEY (env ctx)) = Inr u \<and>
      prompt_chat mode inputText = Inr p \<and> fetch rt (gemini_call u p) = Inr r"
  shows "onRequest_chat rt ctx =
     catch_all rt
       (case after_fetch_chat r of (x, tr) \<Rightarrow> (x, [Request_json, Fetch (gemini_call u p)] @ tr))"
proof -
  from assms have a: "accepted_chat ctx inputText mode" by simp
  from assms show ?thesis by (simp add: onRequest_chat_accepted [OF a])
qed

lemma onRequest_part_000_answered:
  assumes "accepted_part_000 ctx leetText \<and> geminiApiUrl (GEMINI_API_KEY (env ctx)) = Inr u \<and>
      prompt_part_000 leetText = Inr p \<and> fetch rt (gemini_call u p) = Inr r"
  shows "onRequest_part_000 rt ctx =
     catch_all rt
       (case after_fetch_part_000 r of (x, tr) \<Rightarrow> (x, [Request_json, Fetch (gemini_call u p)] @ tr))"
proof -
  from assms have a: "accepted_part_000 ctx leetText" by simp
  from assms show ?thesis by (simp add: onRequest_part_000_accepted [OF a])
qed

text \<open>
  A text that is an object with an own \<open>toString\<close> property is truthy and passes the
  validation, but the prompt's template literal throws: the answer is 500 and nothing is
  fetched.
\<close>

lemma chat_text_not_convertible:
  "onRequest_chat (answering (Inr (success JNull)))
     (incoming (ascii ''POST'') secret
        (Inr (JObj [(ascii ''text'', JObj [(ascii ''toString'', JNum (ascii ''1''))]),
                    (ascii ''mode'', JStr (ascii ''fromLeet''))])))
   = (\<lparr>body = JSON_stringify
          (JObj [(ascii ''error'', JStr (ascii ''Cannot convert object to primitive value''))]),
        status = 500, headers = [(ascii ''Content-Type'', ascii ''application/json'')]\<rparr>,
      [Request_json,
       ConsoleError (ascii ''Error in function:'')
         (LExn (TypeError (NotPrimitive (JObj [(ascii ''toString'', JNum (ascii ''1''))]))))])"
  by (simp add: onRequest_chat_def try_chat_def catch_all_def answering_def incoming_def secret_def
        geminiApiUrl_def prompt_chat_def template_def lookup_def error_response_def
        json_response_def ascii_def)

lemma access_text_path:
  assumes "access responseData text_path = Inr x"
  shows "x = text_of responseData" and "\<not> nullish responseData"
    and "\<not> nullish (own responseData (ascii ''candidates''))"
    and "\<not> nullish (elem (own responseData (ascii ''candidates'')) 0)"
    and "\<not> nullish (own (elem (own responseData (ascii ''candidates'')) 0) (ascii ''content''))"
    and "\<not> nullish (own (own (elem (own responseData (ascii ''candidates'')) 0) (ascii ''content'')) (ascii ''parts''))"
    and "\<not> nullish (elem (own (own (elem (own responseData (ascii ''candidates'')) 0) (ascii ''content'')) (ascii ''parts'')) 0)"
  using assms
  by (simp_all add: text_path_def text_of_def dot_candidates_def dot_content_def dot_parts_def
        dot_text_def split: if_splits)

lemma truthy_text_of:
  assumes "truthy (text_of responseData)"
  shows "truthy (own responseData (ascii ''candidates''))"
    and "truthy (elem (own responseData (ascii ''candidates'')) 0)"
    and "truthy (own (elem (own responseData (ascii ''candidates'')) 0) (ascii ''content''))"
    and "truthy (own (own (elem (own responseData (ascii ''candidates'')) 0) (ascii ''content'')) (ascii ''parts''))"
    and "truthy (elem (own (own (elem (own responseData (ascii ''candidates'')) 0) (ascii ''content'')) (ascii ''parts'')) 0)"
proof -
  let ?cand = "own responseData (ascii ''candidates'')"
  let ?first = "elem ?cand 0"
  let ?cont = "own ?first (ascii ''content'')"
  let ?parts = "own ?cont (ascii ''parts'')"
  let ?part = "elem ?parts 0"
  from assms have 1: "truthy (own ?part (ascii ''text''))"
    by (simp add: text_of_def)
  show 5: "truthy ?part" using 1 own_falsy [of ?part] by fastforce
  show 4: "truthy ?parts" using 5 elem_falsy [of ?parts] by fastforce
  show 3: "truthy ?cont" using 4 own_falsy [of ?cont] by fastforce
  show 2: "truthy ?first" using 3 own_falsy [of ?first] by fastforce
  show "truthy ?cand" using 2 elem_falsy [of ?cand] by fastforce
qed

lemma extract_chat_text:
  assumes "\<not> nullish responseData" and "truthy (text_of responseData)"
  shows "extract_chat responseData = (respond_trimmed (text_of responseData), [])"
  using assms truthy_text_of [OF assms(2)] truthy_text_of [OF assms(2), THEN truthy_not_nullish]
  by (simp add: extract_chat_def structure_ok_def and_also_def text_of_def
        dot_candidates_def dot_content_def dot_parts_def dot_text_def)

lemma extract_chat_fallback:
  assumes "\<not> nullish responseData" and "\<not> truthy (text_of responseData)"
  shows "extract_chat responseData =
    (Inr (translation_response fallback),
     [ConsoleWarn (ascii ''Unexpected Gemini response structure:'') (LValue responseData)])"
proof -
  let ?cand = "own responseData (ascii ''candidates'')"
  let ?first = "elem ?cand 0"
  let ?cont = "own ?first (ascii ''content'')"
  let ?parts = "own ?cont (ascii ''parts'')"
  let ?part = "elem ?parts 0"
  have s: "structure_ok responseData =
      Inr (if \<not> truthy ?cand then ?cand else if \<not> truthy ?first then ?first else if \<not> truthy ?cont then ?cont
           else if \<not> truthy ?parts then ?parts else if \<not> truthy ?part then ?part else text_of responseData)"
    using assms(1)
    by (simp add: structure_ok_def and_also_def text_of_def truthy_not_nullish
          dot_candidates_def dot_content_def dot_parts_def dot_text_def cong: if_cong)
  have "\<not> truthy (if \<not> truthy ?cand then ?cand else if \<not> truthy ?first then ?first else if \<not> truthy ?cont then ?cont
           else if \<not> truthy ?parts then ?parts else if \<not> truthy ?part then ?part else text_of responseData)"
    using assms(2) by simp
  then show ?thesis
    unfolding extract_chat_def s by (simp add: respond_fallback)
qed

lemma extract_part_000_path:
  assumes "access responseData text_path = Inr x"
  shows "extract_part_000 responseData = Inr (or_else x (JStr fallback))"
  using access_text_path [OF assms]
  by (simp add: extract_part_000_def optional_def text_of_def
        dot_candidates_def dot_content_def dot_parts_def dot_text_def)

subsection \<open>Statuses and upstream calls\<close>

lemma status_error_response: "status (error_response s m) = s"
  by (simp add: error_response_def json_response_def)

lemma status_translation_response: "status (translation_response t) = 200"
  by (simp add: translation_response_def json_response_def)

lemma respond_trimmed_status: "respond_trimmed v = Inr resp \<Longrightarrow> status resp = 200"
  by (auto simp: respond_trimmed_def status_translation_response split: sum.splits)

lemma extract_chat_status: "extract_chat d = (Inr resp, tr) \<Longrightarrow> status resp = 200"
  by (auto simp: extract_chat_def dest: respond_trimmed_status split: sum.splits if_splits)

lemma extract_chat_fetches: "fetches (snd (extract_chat d)) = []"
  by (simp add: extract_chat_def split: sum.splits)

lemma after_fetch_chat_status: "after_fetch_chat r = (Inr resp, tr) \<Longrightarrow> status resp = 200"
  by (auto simp: after_fetch_chat_def dest: extract_chat_status split: sum.splits if_splits prod.splits)

lemma after_fetch_chat_fetches: "fetches (snd (after_fetch_chat r)) = []"
proof (cases "api_json r")
  case (Inl e)
  then show ?thesis by (simp add: after_fetch_chat_def)
next
  case (Inr d)
  obtain x tr where e: "extract_chat d = (x, tr)" by (cases "extract_chat d")
  with extract_chat_fetches [of d] have "fetches tr = []" by simp
  with Inr e show ?thesis by (simp add: after_fetch_chat_def)
qed

lemma chat_fetches:
  assumes "accepted_chat ctx inputText mode"
  shows "fetches (snd (onRequest_chat rt ctx)) =
    (case geminiApiUrl (GEMINI_API_KEY (env ctx)) of
       Inl e \<Rightarrow> []
     | Inr u \<Rightarrow> (case prompt_chat mode inputText of Inl e \<Rightarrow> [] | Inr p \<Rightarrow> [gemini_call u p]))"
proof (cases "geminiApiUrl (GEMINI_API_KEY (env ctx))")
  case (Inl e)
  then show ?thesis
    by (simp add: onRequest_chat_accepted [OF assms] catch_all_def)
next
  case u: (Inr u)
  show ?thesis
  proof (cases "prompt_chat mode inputText")
    case (Inl e)
    with u show ?thesis
      by (simp add: onRequest_chat_accepted [OF assms] catch_all_def)
  next
    case p: (Inr p)
    show ?thesis
    proof (cases "fetch rt (gemini_call u p)")
      case (Inl e)
      with u p show ?thesis
        by (simp add: onRequest_chat_accepted [OF assms] catch_all_def fetches_append)
    next
      case (Inr r)
      obtain x tr where a: "after_fetch_chat r = (x, tr)" by (cases "after_fetch_chat r")
      with after_fetch_chat_fetches [of r] have "fetches tr = []" by simp
      with u p Inr a show ?thesis
        by (cases x) (simp_all add: onRequest_chat_accepted [OF assms] catch_all_def fetches_append)
    qed
  qed
qed

lemma catch_all_status:
  assumes "\<And>resp. fst x = Inr resp \<Longrightarrow> status resp = 200"
  shows "status (fst (catch_all rt x)) = 200 \<or> status (fst (catch_all rt x)) = 500"
proof (cases x)
  case (Pair y tr)
  with assms show ?thesis
    by (cases y) (simp_all add: catch_all_def status_error_response)
qed

lemma chat_status:
  assumes "accepted_chat ctx inputText mode"
  shows "status (fst (onRequest_chat rt ctx)) = 200 \<or> status (fst (onRequest_chat rt ctx)) = 500"
  unfolding onRequest_chat_accepted [OF assms]
  by (rule catch_all_status)
     (auto split: sum.splits prod.splits dest: after_fetch_chat_status)

lemma templates_differ: "toLeet_head @ a @ toLeet_tail \<noteq> fromLeet_head @ b @ fromLeet_tail"
  by (simp add: toLeet_head_def fromLeet_head_def ascii_def)

lemma templates_quote:
  "last toLeet_head = 0x22" "hd toLeet_tail = 0x22" "last fromLeet_head = 0x22" "hd fromLeet_tail = 0x22"
  by (simp_all add: toLeet_head_def toLeet_tail_def fromLeet_head_def fromLeet_tail_def ascii_def)

lemma upstream_message_eq:
  "\<not> nullish e \<Longrightarrow>
   optional (access e [Prop (ascii ''error'')]) (\<lambda>x. access x [Prop (ascii ''message'')])
     = Inr (upstream_message e)"
  by (cases "own e (ascii ''error'')") (simp_all add: optional_def upstream_message_def)

lemma template_text: "template before (JStr s) after = Inr (before @ s @ after)"
  by (simp add: template_def)

lemma sent_prompt_gemini_call: "sent_prompt (gemini_call u p) = Inr (JStr p)"
  by (simp add: sent_prompt_def gemini_call_def apiRequestBody_def lookup_def ascii_def)

subsection \<open>After the upstream call\<close>

lemma after_fetch_chat_text:
  assumes "api_ok r" and "api_json r = Inr d" and "access d text_path = Inr (JStr s)" and "s \<noteq> []"
  shows "after_fetch_chat r = (Inr (translation_response (trim s)), [ApiResponse_json])"
proof -
  from access_text_path(1,2) [OF assms(3)] have t: "text_of d = JStr s" and n: "\<not> nullish d"
    by simp_all
  from assms(4) t have "truthy (text_of d)" by simp
  from extract_chat_text [OF n this] t
  have "extract_chat d = (Inr (translation_response (trim s)), [])"
    by (simp add: respond_trimmed_def)
  with assms(1,2) show ?thesis by (simp add: after_fetch_chat_def)
qed

lemma after_fetch_part_000_text:
  assumes "api_ok r" and "api_json r = Inr d" and "access d text_path = Inr (JStr s)" and "s \<noteq> []"
  shows "after_fetch_part_000 r = (Inr (translation_response (trim s)), [ApiResponse_json])"
  using assms(1,2,4) extract_part_000_path [OF assms(3)]
  by (simp add: after_fetch_part_000_def or_else_def respond_trimmed_def)

lemma after_fetch_chat_empty:
  assumes "api_ok r" and "api_json r = Inr d" and "access d text_path = Inr (JStr [])"
  shows "after_fetch_chat r =
    (Inr (translation_response fallback),
     [ApiResponse_json, ConsoleWarn (ascii ''Unexpected Gemini response structure:'') (LValue d)])"
proof -
  from access_text_path(1,2) [OF assms(3)] have t: "text_of d = JStr []" and n: "\<not> nullish d"
    by simp_all
  from t have "\<not> truthy (text_of d)" by simp
  from extract_chat_fallback [OF n this] assms(1,2) show ?thesis
    by (simp add: after_fetch_chat_def)
qed

lemma after_fetch_part_000_empty:
  assumes "api_ok r" and "api_json r = Inr d" and "access d text_path = Inr (JStr [])"
  shows "after_fetch_part_000 r = (Inr (translation_response fallback), [ApiResponse_json])"
  using assms(1,2) extract_part_000_path [OF assms(3)]
  by (simp add: after_fetch_part_000_def or_else_def respond_fallback)

lemma access_of_truthy_text:
  assumes "\<not> nullish d" and "truthy (text_of d)"
  shows "access d text_path = Inr (text_of d)"
  using assms(1) truthy_text_of [OF assms(2), THEN truthy_not_nullish]
  by (simp add: text_path_def text_of_def dot_candidates_def dot_content_def dot_parts_def
        dot_text_def)

text \<open>
  The bidirectional handler falls back whenever the path of the upstream answer is broken:
  a link is missing, so that the strict read throws, or the text itself is undefined.
\<close>

lemma chat_falls_back_on_broken_path:
  assumes "accepted_chat ctx inputText mode \<and> geminiApiUrl (GEMINI_API_KEY (env ctx)) = Inr u \<and>
      prompt_chat mode inputText = Inr p \<and> fetch rt (gemini_call u p) = Inr r"
    and "api_ok r" and "api_json r = Inr d" and "\<not> nullish d"
    and "access d text_path = Inl e \<or> access d text_path = Inr JUndefined"
  shows "onRequest_chat rt ctx =
    (translation_response fallback,
     [Request_json, Fetch (gemini_call u p), ApiResponse_json,
      ConsoleWarn (ascii ''Unexpected Gemini response structure:'') (LValue d)])"
proof -
  have "\<not> truthy (text_of d)"
  proof
    assume t: "truthy (text_of d)"
    from access_of_truthy_text [OF assms(4) t] assms(5) t show False by auto
  qed
  from extract_chat_fallback [OF assms(4) this] assms(2,3) show ?thesis
    by (simp add: onRequest_chat_answered [OF assms(1)] after_fetch_chat_def catch_all_def)
qed

text \<open>
  The single-direction handler does not: a success answer without \<open>candidates\<close> makes the
  read of \<open>candidates[0]\<close> throw, and the \<open>catch\<close> block answers 500.
\<close>

lemma part_000_throws_without_candidates:
  assumes "accepted_part_000 ctx leetText \<and> geminiApiUrl (GEMINI_API_KEY (env ctx)) = Inr u \<and>
      prompt_part_000 leetText = Inr p \<and> fetch rt (gemini_call u p) = Inr r"
    and "api_ok r" and "api_json r = Inr d" and "\<not> nullish d"
    and "nullish (own d (ascii ''candidates''))"
  shows "onRequest_part_000 rt ctx =
    (error_response 500
       (type_error_message rt (ReadOfNullish (own d (ascii ''candidates'')) (ascii ''0''))),
     [Request_json, Fetch (gemini_call u p), ApiResponse_json,
      ConsoleError (ascii ''Error in function:'')
        (LExn (TypeError (ReadOfNullish (own d (ascii ''candidates'')) (ascii ''0''))))])"
proof -
  have z: "decimal 0 = ascii ''0''"
    by (simp add: decimal.simps ascii_def)
  from assms(4,5)
  have "extract_part_000 d = Inl (TypeError (ReadOfNullish (own d (ascii ''candidates'')) (ascii ''0'')))"
    by (simp add: extract_part_000_def optional_def dot_candidates_def z)
  with assms(2,3) show ?thesis
    by (simp add: onRequest_part_000_answered [OF assms(1)] after_fetch_part_000_def catch_all_def)
qed

text \<open>
  C1. For an upstream success response whose path \<open>candidates[0].content.parts[0].text\<close> is
  broken, both handlers are to answer 200 with the fallback translation. The single-direction
  handler does not: when the answer has no \<open>candidates\<close>, the read \<open>candidates[0]\<close> throws and
  the handler answers 500 with the engine's message.
\<close>

theorem part_000_missing_candidates:
  "onRequest_part_000 (answering (Inr (success (JObj []))))
     (incoming (ascii ''POST'') secret (Inr (JObj [(ascii ''text'', JStr (ascii ''H3110''))])))
   = (\<lparr>body = JSON_stringify
          (JObj [(ascii ''error'', JStr (v8_message (ReadOfNullish JUndefined (ascii ''0''))))]),
        status = 500, headers = [(ascii ''Content-Type'', ascii ''application/json'')]\<rparr>,
      [Request_json,
       Fetch (gemini_call secret_url (leet_head @ ascii ''H3110'' @ leet_tail)),
       ApiResponse_json,
       ConsoleError (ascii ''Error in function:'')
         (LExn (TypeError (ReadOfNullish JUndefined (ascii ''0''))))])"
  by (simp add: onRequest_part_000_def try_part_000_def after_fetch_part_000_def
        extract_part_000_def optional_def catch_all_def answering_def incoming_def secret_def
        secret_url_def geminiApiUrl_def template_def success_def dot_candidates_def
        prompt_part_000_def lookup_def decimal.simps error_response_def json_response_def ascii_def)

section \<open>Gates and validation\<close>

text \<open>
  C7. A request whose method is not POST is answered by both handlers with status 405 and
  the plain text \<open>Method Not Allowed\<close>, whatever the configuration and the body: nothing is
  read and nothing is called.
\<close>

theorem non_post_method_not_allowed:
  assumes "request_method (request ctx) \<noteq> ascii ''POST''"
  shows "onRequest_chat rt ctx =
           (\<lparr>body = Text (ascii ''Method Not Allowed''), status = 405, headers = []\<rparr>, []) \<and>
         onRequest_part_000 rt ctx =
           (\<lparr>body = Text (ascii ''Method Not Allowed''), status = 405, headers = []\<rparr>, [])"
  using assms by (simp add: onRequest_chat_def onRequest_part_000_def method_not_allowed_def)

theorem non_post_method_not_allowed_witness:
  "request_method (request (incoming (ascii ''GET'') secret (Inr (translate_request ''H3110'' ''fromLeet''))))
     \<noteq> ascii ''POST'' \<and>
   onRequest_chat (answering (Inr (success JNull)))
       (incoming (ascii ''GET'') secret (Inr (translate_request ''H3110'' ''fromLeet'')))
     = (\<lparr>body = Text (ascii ''Method Not Allowed''), status = 405, headers = []\<rparr>, []) \<and>
   onRequest_part_000 (answering (Inr (success JNull)))
       (incoming (ascii ''GET'') secret (Inr (translate_request ''H3110'' ''fromLeet'')))
     = (\<lparr>body = Text (ascii ''Method Not Allowed''), status = 405, headers = []\<rparr>, [])"
proof -
  have h: "request_method (request (incoming (ascii ''GET'') secret (Inr (translate_request ''H3110'' ''fromLeet''))))
     \<noteq> ascii ''POST''"
    by (simp add: incoming_def ascii_def)
  from h non_post_method_not_allowed [OF h] show ?thesis by simp
qed

text \<open>
  C6. When \<open>GEMINI_API_KEY\<close> is absent (or otherwise falsy), every POST request is answered
  with status 500 and an \<open>error\<close> field by both handlers, whatever the body: the body is
  not read.
\<close>

theorem missing_key_is_500:
  assumes "request_method (request ctx) = ascii ''POST''" and "\<not> truthy (GEMINI_API_KEY (env ctx))"
  shows "onRequest_chat rt ctx =
           (\<lparr>body = JSON_stringify (JObj [(ascii ''error'', JStr (ascii ''GEMINI_API_KEY is not set in Cloudflare''))]),
             status = 500, headers = [(ascii ''Content-Type'', ascii ''application/json'')]\<rparr>, []) \<and>
         onRequest_part_000 rt ctx =
           (\<lparr>body = JSON_stringify (JObj [(ascii ''error'', JStr (ascii ''GEMINI_API_KEY is not set''))]),
             status = 500, headers = [(ascii ''Content-Type'', ascii ''application/json'')]\<rparr>, [])"
  using assms
  by (simp add: onRequest_chat_def onRequest_part_000_def error_response_def json_response_def)

theorem missing_key_is_500_witness:
  "onRequest_chat (answering (Inr (success JNull)))
       (incoming (ascii ''POST'') JUndefined (Inl (Error (ascii ''Unexpected end of JSON input''))))
     = (\<lparr>body = JSON_stringify (JObj [(ascii ''error'', JStr (ascii ''GEMINI_API_KEY is not set in Cloudflare''))]),
         status = 500, headers = [(ascii ''Content-Type'', ascii ''application/json'')]\<rparr>, []) \<and>
   onRequest_part_000 (answering (Inr (success JNull)))
       (incoming (ascii ''POST'') JUndefined (Inl (Error (ascii ''Unexpected end of JSON input''))))
     = (\<lparr>body = JSON_stringify (JObj [(ascii ''error'', JStr (ascii ''GEMINI_API_KEY is not set''))]),
         status = 500, headers = [(ascii ''Content-Type'', ascii ''application/json'')]\<rparr>, [])"
proof -
  let ?ctx = "incoming (ascii ''POST'') JUndefined (Inl (Error (ascii ''Unexpected end of JSON input'')))"
  have m: "request_method (request ?ctx) = ascii ''POST''"
    by (simp add: incoming_def)
  have k: "\<not> truthy (GEMINI_API_KEY (env ?ctx))"
    by (simp add: incoming_def)
  from missing_key_is_500 [OF m k] show ?thesis by simp
qed

text \<open>
  C8. With the key configured, a POST request whose body is not valid JSON is answered by
  both handlers with status 500 and the message of the parse failure in the \<open>error\<close>
  field: the failure reaches the \<open>catch\<close> block, and no 400 is sent.
\<close>

theorem malformed_body_is_500:
  assumes "request_method (request ctx) = ascii ''POST''" and "truthy (GEMINI_API_KEY (env ctx))"
    and "json (request ctx) = Inl e"
  shows "onRequest_chat rt ctx =
           (\<lparr>body = JSON_stringify (JObj [(ascii ''error'', JStr (message rt e))]),
             status = 500, headers = [(ascii ''Content-Type'', ascii ''application/json'')]\<rparr>,
            [Request_json, ConsoleError (ascii ''Error in function:'') (LExn e)]) \<and>
         onRequest_part_000 rt ctx =
           (\<lparr>body = JSON_stringify (JObj [(ascii ''error'', JStr (message rt e))]),
             status = 500, headers = [(ascii ''Content-Type'', ascii ''application/json'')]\<rparr>,
            [Request_json, ConsoleError (ascii ''Error in function:'') (LExn e)])"
  using assms
  by (simp add: onRequest_chat_def onRequest_part_000_def try_chat_def try_part_000_def
        catch_all_def error_response_def json_response_def)

theorem malformed_body_is_500_witness:
  "status (fst (onRequest_chat (answering (Inr (success JNull)))
       (incoming (ascii ''POST'') secret (Inl (Error (ascii ''Unexpected end of JSON input'')))))) = 500 \<and>
   body (fst (onRequest_part_000 (answering (Inr (success JNull)))
       (incoming (ascii ''POST'') secret (Inl (Error (ascii ''Unexpected end of JSON input''))))))
     = JSON_stringify (JObj [(ascii ''error'', JStr (ascii ''Unexpected end of JSON input''))])"
proof -
  let ?ctx = "incoming (ascii ''POST'') secret (Inl (Error (ascii ''Unexpected end of JSON input'')))"
  have m: "request_method (request ?ctx) = ascii ''POST''"
    by (simp add: incoming_def)
  have k: "truthy (GEMINI_API_KEY (env ?ctx))"
    by (simp add: incoming_def secret_def ascii_def)
  have j: "json (request ?ctx) = Inl (Error (ascii ''Unexpected end of JSON input''))"
    by (simp add: incoming_def)
  from malformed_body_is_500 [OF m k j, of "answering (Inr (success JNull))"] show ?thesis
    by (simp add: error_response_def json_response_def)
qed

text \<open>
  C5, as the code has it. With the key configured, a POST request whose body parses to a
  value other than \<open>null\<close> and whose \<open>text\<close> is missing or falsy (or, for the bidirectional
  handler, whose \<open>mode\<close> is) is answered with status 400 and an \<open>error\<close> field, and no
  upstream call is made. Without the key the answer is 500, as C6 says.
\<close>

theorem missing_field_is_400:
  assumes "request_method (request ctx) = ascii ''POST''" and "truthy (GEMINI_API_KEY (env ctx))"
    and "json (request ctx) = Inr requestData" and "\<not> nullish requestData"
  shows "(\<not> truthy (own requestData (ascii ''text'')) \<or> \<not> truthy (own requestData (ascii ''mode'')) \<longrightarrow>
            onRequest_chat rt ctx =
              (\<lparr>body = JSON_stringify (JObj [(ascii ''error'', JStr (ascii ''No text or mode provided''))]),
                status = 400, headers = [(ascii ''Content-Type'', ascii ''application/json'')]\<rparr>, [Request_json]) \<and>
            fetches (snd (onRequest_chat rt ctx)) = []) \<and>
         (\<not> truthy (own requestData (ascii ''text'')) \<longrightarrow>
            onRequest_part_000 rt ctx =
              (\<lparr>body = JSON_stringify (JObj [(ascii ''error'', JStr (ascii ''No text provided''))]),
                status = 400, headers = [(ascii ''Content-Type'', ascii ''application/json'')]\<rparr>, [Request_json]) \<and>
            fetches (snd (onRequest_part_000 rt ctx)) = [])"
  using assms
  by (simp add: onRequest_chat_def onRequest_part_000_def try_chat_def try_part_000_def
        catch_all_def error_response_def json_response_def)

theorem missing_field_is_400_witness:
  "onRequest_chat (answering (Inr (success JNull)))
       (incoming (ascii ''POST'') secret (Inr (JObj [(ascii ''text'', JStr (ascii ''H3110''))])))
     = (\<lparr>body = JSON_stringify (JObj [(ascii ''error'', JStr (ascii ''No text or mode provided''))]),
         status = 400, headers = [(ascii ''Content-Type'', ascii ''application/json'')]\<rparr>, [Request_json]) \<and>
   onRequest_part_000 (answering (Inr (success JNull)))
       (incoming (ascii ''POST'') secret (Inr (JObj [(ascii ''text'', JStr [])])))
     = (\<lparr>body = JSON_stringify (JObj [(ascii ''error'', JStr (ascii ''No text provided''))]),
         status = 400, headers = [(ascii ''Content-Type'', ascii ''application/json'')]\<rparr>, [Request_json])"
proof -
  let ?rt = "answering (Inr (success JNull))"
  let ?a = "incoming (ascii ''POST'') secret (Inr (JObj [(ascii ''text'', JStr (ascii ''H3110''))]))"
  let ?b = "incoming (ascii ''POST'') secret (Inr (JObj [(ascii ''text'', JStr [])]))"
  have k: "truthy secret"
    by (simp add: secret_def ascii_def)
  have a: "\<not> truthy (own (JObj [(ascii ''text'', JStr (ascii ''H3110''))]) (ascii ''mode''))"
    by (simp add: lookup_def ascii_def)
  have b: "\<not> truthy (own (JObj [(ascii ''text'', JStr [])]) (ascii ''text''))"
    by (simp add: lookup_def)
  from k a missing_field_is_400 [of ?a "JObj [(ascii ''text'', JStr (ascii ''H3110''))]" ?rt]
  have 1: "onRequest_chat ?rt ?a =
    (\<lparr>body = JSON_stringify (JObj [(ascii ''error'', JStr (ascii ''No text or mode provided''))]),
      status = 400, headers = [(ascii ''Content-Type'', ascii ''application/json'')]\<rparr>, [Request_json])"
    by (simp add: incoming_def)
  from k b missing_field_is_400 [of ?b "JObj [(ascii ''text'', JStr [])]" ?rt]
  have 2: "onRequest_part_000 ?rt ?b =
    (\<lparr>body = JSON_stringify (JObj [(ascii ''error'', JStr (ascii ''No text provided''))]),
      status = 400, headers = [(ascii ''Content-Type'', ascii ''application/json'')]\<rparr>, [Request_json])"
    by (simp add: incoming_def)
  from 1 2 show ?thesis by simp
qed

text \<open>
  C5, as stated, fails: a POST request whose body is \<open>{}\<close> is answered with 500, not 400,
  when the key is not configured.
\<close>

theorem missing_field_without_key:
  "request_method (request (incoming (ascii ''POST'') JUndefined (Inr (JObj [])))) = ascii ''POST'' \<and>
   json (request (incoming (ascii ''POST'') JUndefined (Inr (JObj [])))) = Inr (JObj []) \<and>
   own (JObj []) (ascii ''text'') = JUndefined \<and>
   status (fst (onRequest_chat (answering (Inr (success JNull)))
     (incoming (ascii ''POST'') JUndefined (Inr (JObj []))))) = 500 \<and>
   status (fst (onRequest_part_000 (answering (Inr (success JNull)))
     (incoming (ascii ''POST'') JUndefined (Inr (JObj []))))) = 500"
  by (simp add: onRequest_chat_def onRequest_part_000_def incoming_def status_error_response
        lookup_def)

section \<open>The translation\<close>

text \<open>
  C3. When the upstream call succeeds and \<open>candidates[0].content.parts[0].text\<close> of its
  answer is a non-empty string \<open>s\<close>, both handlers answer 200 with \<open>{ translation: t }\<close>,
  where \<open>t\<close> is \<open>s\<close> without its leading and trailing whitespace.
\<close>

theorem translation_is_trimmed_text:
  assumes "api_ok r" and "api_json r = Inr responseData"
    and "access responseData text_path = Inr (JStr s)" and "s \<noteq> []"
  shows "(accepted_chat ctx inputText mode \<and> geminiApiUrl (GEMINI_API_KEY (env ctx)) = Inr u \<and>
          prompt_chat mode inputText = Inr p \<and> fetch rt (gemini_call u p) = Inr r \<longrightarrow>
            onRequest_chat rt ctx =
              (\<lparr>body = JSON_stringify (JObj [(ascii ''translation'', JStr (trim s))]), status = 200,
                headers = [(ascii ''Content-Type'', ascii ''application/json'')]\<rparr>,
               [Request_json, Fetch (gemini_call u p), ApiResponse_json])) \<and>
         (accepted_part_000 ctx' leetText \<and> geminiApiUrl (GEMINI_API_KEY (env ctx')) = Inr u' \<and>
          prompt_part_000 leetText = Inr p' \<and> fetch rt' (gemini_call u' p') = Inr r \<longrightarrow>
            onRequest_part_000 rt' ctx' =
              (\<lparr>body = JSON_stringify (JObj [(ascii ''translation'', JStr (trim s))]), status = 200,
                headers = [(ascii ''Content-Type'', ascii ''application/json'')]\<rparr>,
               [Request_json, Fetch (gemini_call u' p'), ApiResponse_json])) \<and>
         stripped s (trim s)"
proof (intro conjI impI)
  assume a: "accepted_chat ctx inputText mode \<and> geminiApiUrl (GEMINI_API_KEY (env ctx)) = Inr u \<and>
          prompt_chat mode inputText = Inr p \<and> fetch rt (gemini_call u p) = Inr r"
  from after_fetch_chat_text [OF assms]
  show "onRequest_chat rt ctx =
      (\<lparr>body = JSON_stringify (JObj [(ascii ''translation'', JStr (trim s))]), status = 200,
        headers = [(ascii ''Content-Type'', ascii ''application/json'')]\<rparr>,
       [Request_json, Fetch (gemini_call u p), ApiResponse_json])"
    by (simp add: onRequest_chat_answered [OF a] catch_all_def translation_response_def
          json_response_def)
next
  assume a: "accepted_part_000 ctx' leetText \<and> geminiApiUrl (GEMINI_API_KEY (env ctx')) = Inr u' \<and>
          prompt_part_000 leetText = Inr p' \<and> fetch rt' (gemini_call u' p') = Inr r"
  from after_fetch_part_000_text [OF assms]
  show "onRequest_part_000 rt' ctx' =
      (\<lparr>body = JSON_stringify (JObj [(ascii ''translation'', JStr (trim s))]), status = 200,
        headers = [(ascii ''Content-Type'', ascii ''application/json'')]\<rparr>,
       [Request_json, Fetch (gemini_call u' p'), ApiResponse_json])"
    by (simp add: onRequest_part_000_answered [OF a] catch_all_def translation_response_def
          json_response_def)
next
  show "stripped s (trim s)" by (rule stripped_trim)
qed

theorem translation_is_trimmed_text_witness:
  "fst (onRequest_chat (answering (Inr (success (candidate_text (JStr (ascii ''  Hello  ''))))))
          (incoming (ascii ''POST'') secret (Inr (translate_request ''H3110'' ''fromLeet''))))
     = \<lparr>body = JSON_stringify (JObj [(ascii ''translation'', JStr (ascii ''Hello''))]), status = 200,
        headers = [(ascii ''Content-Type'', ascii ''application/json'')]\<rparr> \<and>
   fst (onRequest_part_000 (answering (Inr (success (candidate_text (JStr (ascii ''  Hello  ''))))))
          (incoming (ascii ''POST'') secret (Inr (translate_request ''H3110'' ''fromLeet''))))
     = \<lparr>body = JSON_stringify (JObj [(ascii ''translation'', JStr (ascii ''Hello''))]), status = 200,
        headers = [(ascii ''Content-Type'', ascii ''application/json'')]\<rparr>"
proof -
  let ?d = "candidate_text (JStr (ascii ''  Hello  ''))"
  let ?rt = "answering (Inr (success ?d))"
  let ?ctx = "incoming (ascii ''POST'') secret (Inr (translate_request ''H3110'' ''fromLeet''))"
  let ?p = "fromLeet_head @ ascii ''H3110'' @ fromLeet_tail"
  let ?q = "leet_head @ ascii ''H3110'' @ leet_tail"
  have ok: "api_ok (success ?d)" and js: "api_json (success ?d) = Inr ?d"
    by (simp_all add: success_def)
  have path: "access ?d text_path = Inr (JStr (ascii ''  Hello  ''))"
    by (simp add: candidate_text_def text_path_def dot_candidates_def dot_content_def
          dot_parts_def dot_text_def lookup_def ascii_def)
  have ne: "ascii ''  Hello  '' \<noteq> []"
    by (simp add: ascii_def)
  have a: "accepted_chat ?ctx (JStr (ascii ''H3110'')) (JStr (ascii ''fromLeet''))"
    by (simp add: accepted_chat_def incoming_def secret_def translate_request_def lookup_def ascii_def)
  have b: "accepted_part_000 ?ctx (JStr (ascii ''H3110''))"
    by (simp add: accepted_part_000_def incoming_def secret_def translate_request_def lookup_def
          ascii_def)
  have u: "geminiApiUrl (GEMINI_API_KEY (env ?ctx)) = Inr secret_url"
    by (simp add: geminiApiUrl_def template_def incoming_def secret_def secret_url_def ascii_def)
  have p: "prompt_chat (JStr (ascii ''fromLeet'')) (JStr (ascii ''H3110'')) = Inr ?p"
    by (simp add: prompt_chat_def template_def ascii_def)
  have q: "prompt_part_000 (JStr (ascii ''H3110'')) = Inr ?q"
    by (simp add: prompt_part_000_def template_def)
  have f: "fetch ?rt c = Inr (success ?d)" for c
    by (simp add: answering_def)
  have t: "trim (ascii ''  Hello  '') = ascii ''Hello''"
    by (simp add: trim_def isWhiteSpace_def ascii_def)
  from translation_is_trimmed_text [OF ok js path ne, of ?ctx "JStr (ascii ''H3110'')"
      "JStr (ascii ''fromLeet'')" secret_url ?p ?rt ?ctx "JStr (ascii ''H3110'')" secret_url ?q ?rt]
    a b u p q f t
  show ?thesis by simp
qed

text \<open>
  C10. When the upstream call succeeds and the whole path is there but the text is the empty
  string, both handlers answer 200 with the fallback translation.
\<close>

theorem empty_text_falls_back:
  assumes "api_ok r" and "api_json r = Inr responseData"
    and "access responseData text_path = Inr (JStr [])"
  shows "(accepted_chat ctx inputText mode \<and> geminiApiUrl (GEMINI_API_KEY (env ctx)) = Inr u \<and>
          prompt_chat mode inputText = Inr p \<and> fetch rt (gemini_call u p) = Inr r \<longrightarrow>
            onRequest_chat rt ctx =
              (\<lparr>body = JSON_stringify (JObj [(ascii ''translation'', JStr (ascii ''Translation not found.''))]),
                status = 200, headers = [(ascii ''Content-Type'', ascii ''application/json'')]\<rparr>,
               [Request_json, Fetch (gemini_call u p), ApiResponse_json,
                ConsoleWarn (ascii ''Unexpected Gemini response structure:'') (LValue responseData)])) \<and>
         (accepted_part_000 ctx' leetText \<and> geminiApiUrl (GEMINI_API_KEY (env ctx')) = Inr u' \<and>
          prompt_part_000 leetText = Inr p' \<and> fetch rt' (gemini_call u' p') = Inr r \<longrightarrow>
            onRequest_part_000 rt' ctx' =
              (\<lparr>body = JSON_stringify (JObj [(ascii ''translation'', JStr (ascii ''Translation not found.''))]),
                status = 200, headers = [(ascii ''Content-Type'', ascii ''application/json'')]\<rparr>,
               [Request_json, Fetch (gemini_call u' p'), ApiResponse_json]))"
proof (intro conjI impI)
  assume a: "accepted_chat ctx inputText mode \<and> geminiApiUrl (GEMINI_API_KEY (env ctx)) = Inr u \<and>
          prompt_chat mode inputText = Inr p \<and> fetch rt (gemini_call u p) = Inr r"
  from after_fetch_chat_empty [OF assms]
  show "onRequest_chat rt ctx =
      (\<lparr>body = JSON_stringify (JObj [(ascii ''translation'', JStr (ascii ''Translation not found.''))]),
        status = 200, headers = [(ascii ''Content-Type'', ascii ''application/json'')]\<rparr>,
       [Request_json, Fetch (gemini_call u p), ApiResponse_json,
        ConsoleWarn (ascii ''Unexpected Gemini response structure:'') (LValue responseData)])"
    by (simp add: onRequest_chat_answered [OF a] catch_all_def translation_response_def
          json_response_def fallback_def)
next
  assume a: "accepted_part_000 ctx' leetText \<and> geminiApiUrl (GEMINI_API_KEY (env ctx')) = Inr u' \<and>
          prompt_part_000 leetText = Inr p' \<and> fetch rt' (gemini_call u' p') = Inr r"
  from after_fetch_part_000_empty [OF assms]
  show "onRequest_part_000 rt' ctx' =
      (\<lparr>body = JSON_stringify (JObj [(ascii ''translation'', JStr (ascii ''Translation not found.''))]),
        status = 200, headers = [(ascii ''Content-Type'', ascii ''application/json'')]\<rparr>,
       [Request_json, Fetch (gemini_call u' p'), ApiResponse_json])"
    by (simp add: onRequest_part_000_answered [OF a] catch_all_def translation_response_def
          json_response_def fallback_def)
qed

theorem empty_text_falls_back_witness:
  "fst (onRequest_chat (answering (Inr (success (candidate_text (JStr [])))))
          (incoming (ascii ''POST'') secret (Inr (translate_request ''H3110'' ''fromLeet''))))
     = \<lparr>body = JSON_stringify (JObj [(ascii ''translation'', JStr (ascii ''Translation not found.''))]),
        status = 200, headers = [(ascii ''Content-Type'', ascii ''application/json'')]\<rparr> \<and>
   fst (onRequest_part_000 (answering (Inr (success (candidate_text (JStr [])))))
          (incoming (ascii ''POST'') secret (Inr (translate_request ''H3110'' ''fromLeet''))))
     = \<lparr>body = JSON_stringify (JObj [(ascii ''translation'', JStr (ascii ''Translation not found.''))]),
        status = 200, headers = [(ascii ''Content-Type'', ascii ''application/json'')]\<rparr>"
proof -
  let ?d = "candidate_text (JStr [])"
  let ?rt = "answering (Inr (success ?d))"
  let ?ctx = "incoming (ascii ''POST'') secret (Inr (translate_request ''H3110'' ''fromLeet''))"
  let ?p = "fromLeet_head @ ascii ''H3110'' @ fromLeet_tail"
  let ?q = "leet_head @ ascii ''H3110'' @ leet_tail"
  have ok: "api_ok (success ?d)" and js: "api_json (success ?d) = Inr ?d"
    by (simp_all add: success_def)
  have path: "access ?d text_path = Inr (JStr [])"
    by (simp add: candidate_text_def text_path_def dot_candidates_def dot_content_def
          dot_parts_def dot_text_def lookup_def ascii_def)
  have a: "accepted_chat ?ctx (JStr (ascii ''H3110'')) (JStr (ascii ''fromLeet''))"
    by (simp add: accepted_chat_def incoming_def secret_def translate_request_def lookup_def ascii_def)
  have b: "accepted_part_000 ?ctx (JStr (ascii ''H3110''))"
    by (simp add: accepted_part_000_def incoming_def secret_def translate_request_def lookup_def
          ascii_def)
  have u: "geminiApiUrl (GEMINI_API_KEY (env ?ctx)) = Inr secret_url"
    by (simp add: geminiApiUrl_def template_def incoming_def secret_def secret_url_def ascii_def)
  have p: "prompt_chat (JStr (ascii ''fromLeet'')) (JStr (ascii ''H3110'')) = Inr ?p"
    by (simp add: prompt_chat_def template_def ascii_def)
  have q: "prompt_part_000 (JStr (ascii ''H3110'')) = Inr ?q"
    by (simp add: prompt_part_000_def template_def)
  have f: "fetch ?rt c = Inr (success ?d)" for c
    by (simp add: answering_def)
  from empty_text_falls_back [OF ok js path, of ?ctx "JStr (ascii ''H3110'')"
      "JStr (ascii ''fromLeet'')" secret_url ?p ?rt ?ctx "JStr (ascii ''H3110'')" secret_url ?q ?rt]
    a b u p q f
  show ?thesis by simp
qed

section \<open>Upstream failures and prompt selection\<close>

lemma gemini_call_prompt: "gemini_call k p = gemini_call k' p' \<Longrightarrow> p = p'"
  by (simp add: gemini_call_def apiRequestBody_def)

lemma after_fetch_chat_failure:
  assumes "\<not> api_ok r"
  shows "\<exists>e tr. after_fetch_chat r = (Inl e, tr)"
  using assms by (cases "api_json r") (simp_all add: after_fetch_chat_def)

lemma after_fetch_chat_failure_body:
  assumes "\<not> api_ok r" and "api_json r = Inr errorBody" and "\<not> nullish errorBody"
  shows "after_fetch_chat r =
    (Inl (case toString (or_else (upstream_message errorBody)
                  (JStr (ascii ''Gemini API error: '' @ decimal (api_status r)))) of
            Inl e \<Rightarrow> e
          | Inr s \<Rightarrow> Error s),
     [ApiResponse_json, ConsoleError (ascii ''Gemini API error:'') (LValue errorBody)])"
proof -
  have "api_error_chat r errorBody =
      (case toString (or_else (upstream_message errorBody)
                  (JStr (ascii ''Gemini API error: '' @ decimal (api_status r)))) of
         Inl e \<Rightarrow> e
       | Inr s \<Rightarrow> Error s)"
    unfolding api_error_chat_def upstream_message_eq [OF assms(3)] by simp
  with assms(1,2) show ?thesis
    by (simp add: after_fetch_chat_def)
qed

lemma after_fetch_chat_message:
  assumes "\<not> api_ok r" and "api_json r = Inr errorBody" and "\<not> nullish errorBody"
    and "truthy (upstream_message errorBody) \<and> toString (upstream_message errorBody) = Inr m"
  shows "after_fetch_chat r =
    (Inl (Error m), [ApiResponse_json, ConsoleError (ascii ''Gemini API error:'') (LValue errorBody)])"
  using assms(4) by (simp add: after_fetch_chat_failure_body [OF assms(1,2,3)] or_else_def)

lemma after_fetch_chat_generic:
  assumes "\<not> api_ok r" and "api_json r = Inr errorBody" and "\<not> nullish errorBody"
    and "\<not> truthy (upstream_message errorBody)"
  shows "after_fetch_chat r =
    (Inl (Error (ascii ''Gemini API error: '' @ decimal (api_status r))),
     [ApiResponse_json, ConsoleError (ascii ''Gemini API error:'') (LValue errorBody)])"
  using assms(4) by (simp add: after_fetch_chat_failure_body [OF assms(1,2,3)] or_else_def)

lemma onRequest_chat_failed:
  assumes "accepted_chat ctx inputText mode \<and> geminiApiUrl (GEMINI_API_KEY (env ctx)) = Inr u \<and>
      prompt_chat mode inputText = Inr p \<and> fetch rt (gemini_call u p) = Inr r"
    and "after_fetch_chat r = (Inl e, tr)"
  shows "onRequest_chat rt ctx =
    (\<lparr>body = JSON_stringify (JObj [(ascii ''error'', JStr (message rt e))]), status = 500,
      headers = [(ascii ''Content-Type'', ascii ''application/json'')]\<rparr>,
     [Request_json, Fetch (gemini_call u p)] @ tr
       @ [ConsoleError (ascii ''Error in function:'') (LExn e)])"
  using assms(2)
  by (simp add: onRequest_chat_answered [OF assms(1)] catch_all_def error_response_def
        json_response_def)

text \<open>
  C2, as the code has it. When the upstream answers with a failure status, both handlers
  answer 500 with an \<open>error\<close> field. In the bidirectional handler, when the upstream body
  parses to a value other than \<open>null\<close>, the field is its \<open>error.message\<close>, as a string, if that
  is there and truthy, and \<open>Gemini API error: \<close> with the status otherwise. The
  single-direction handler does not read the upstream body: its field is
  \<open>Gemini API error: \<close> with the status and the status text.
\<close>

theorem upstream_failure_is_500:
  assumes "\<not> api_ok r"
  shows "(accepted_chat ctx inputText mode \<and> geminiApiUrl (GEMINI_API_KEY (env ctx)) = Inr u \<and>
          prompt_chat mode inputText = Inr p \<and> fetch rt (gemini_call u p) = Inr r \<longrightarrow>
            (\<exists>m. fst (onRequest_chat rt ctx) =
               \<lparr>body = JSON_stringify (JObj [(ascii ''error'', JStr m)]), status = 500,
                headers = [(ascii ''Content-Type'', ascii ''application/json'')]\<rparr>) \<and>
            (\<forall>errorBody. api_json r = Inr errorBody \<and> \<not> nullish errorBody \<longrightarrow>
               (\<forall>m. truthy (upstream_message errorBody) \<and> toString (upstream_message errorBody) = Inr m \<longrightarrow>
                  onRequest_chat rt ctx =
                    (\<lparr>body = JSON_stringify (JObj [(ascii ''error'', JStr m)]), status = 500,
                      headers = [(ascii ''Content-Type'', ascii ''application/json'')]\<rparr>,
                     [Request_json, Fetch (gemini_call u p), ApiResponse_json,
                      ConsoleError (ascii ''Gemini API error:'') (LValue errorBody),
                      ConsoleError (ascii ''Error in function:'') (LExn (Error m))])) \<and>
               (\<not> truthy (upstream_message errorBody) \<longrightarrow>
                  onRequest_chat rt ctx =
                    (\<lparr>body = JSON_stringify
                        (JObj [(ascii ''error'',
                                JStr (ascii ''Gemini API error: '' @ decimal (api_status r)))]),
                      status = 500,
                      headers = [(ascii ''Content-Type'', ascii ''application/json'')]\<rparr>,
                     [Request_json, Fetch (gemini_call u p), ApiResponse_json,
                      ConsoleError (ascii ''Gemini API error:'') (LValue errorBody),
                      ConsoleError (ascii ''Error in function:'')
                        (LExn (Error (ascii ''Gemini API error: '' @ decimal (api_status r))))])))) \<and>
         (accepted_part_000 ctx' leetText \<and> geminiApiUrl (GEMINI_API_KEY (env ctx')) = Inr u' \<and>
          prompt_part_000 leetText = Inr p' \<and> fetch rt' (gemini_call u' p') = Inr r \<longrightarrow>
            onRequest_part_000 rt' ctx' =
              (\<lparr>body = JSON_stringify
                  (JObj [(ascii ''error'',
                          JStr (ascii ''Gemini API error: '' @ decimal (api_status r) @ ascii '' ''
                                @ api_statusText r))]),
                status = 500,
                headers = [(ascii ''Content-Type'', ascii ''application/json'')]\<rparr>,
               [Request_json, Fetch (gemini_call u' p'),
                ConsoleError (ascii ''Error in function:'')
                  (LExn (Error (ascii ''Gemini API error: '' @ decimal (api_status r) @ ascii '' ''
                                @ api_statusText r)))]))"
proof (intro conjI impI allI)
  assume a: "accepted_chat ctx inputText mode \<and> geminiApiUrl (GEMINI_API_KEY (env ctx)) = Inr u \<and>
          prompt_chat mode inputText = Inr p \<and> fetch rt (gemini_call u p) = Inr r"
  from after_fetch_chat_failure [OF assms] obtain e tr where "after_fetch_chat r = (Inl e, tr)"
    by blast
  from onRequest_chat_failed [OF a this]
  have "fst (onRequest_chat rt ctx) =
      \<lparr>body = JSON_stringify (JObj [(ascii ''error'', JStr (message rt e))]), status = 500,
       headers = [(ascii ''Content-Type'', ascii ''application/json'')]\<rparr>"
    by simp
  then show "\<exists>m. fst (onRequest_chat rt ctx) =
      \<lparr>body = JSON_stringify (JObj [(ascii ''error'', JStr m)]), status = 500,
       headers = [(ascii ''Content-Type'', ascii ''application/json'')]\<rparr>"
    by (rule exI [where x = "message rt e"])
next
  fix errorBody m
  assume a: "accepted_chat ctx inputText mode \<and> geminiApiUrl (GEMINI_API_KEY (env ctx)) = Inr u \<and>
          prompt_chat mode inputText = Inr p \<and> fetch rt (gemini_call u p) = Inr r"
    and b: "api_json r = Inr errorBody \<and> \<not> nullish errorBody"
    and c: "truthy (upstream_message errorBody) \<and> toString (upstream_message errorBody) = Inr m"
  from b have j: "api_json r = Inr errorBody" and n: "\<not> nullish errorBody" by simp_all
  from onRequest_chat_failed [OF a after_fetch_chat_message [OF assms j n c]]
  show "onRequest_chat rt ctx =
      (\<lparr>body = JSON_stringify (JObj [(ascii ''error'', JStr m)]), status = 500,
        headers = [(ascii ''Content-Type'', ascii ''application/json'')]\<rparr>,
       [Request_json, Fetch (gemini_call u p), ApiResponse_json,
        ConsoleError (ascii ''Gemini API error:'') (LValue errorBody),
        ConsoleError (ascii ''Error in function:'') (LExn (Error m))])"
    by simp
next
  fix errorBody
  assume a: "accepted_chat ctx inputText mode \<and> geminiApiUrl (GEMINI_API_KEY (env ctx)) = Inr u \<and>
          prompt_chat mode inputText = Inr p \<and> fetch rt (gemini_call u p) = Inr r"
    and b: "api_json r = Inr errorBody \<and> \<not> nullish errorBody"
    and c: "\<not> truthy (upstream_message errorBody)"
  from b have j: "api_json r = Inr errorBody" and n: "\<not> nullish errorBody" by simp_all
  from onRequest_chat_failed [OF a after_fetch_chat_generic [OF assms j n c]]
  show "onRequest_chat rt ctx =
      (\<lparr>body = JSON_stringify
          (JObj [(ascii ''error'', JStr (ascii ''Gemini API error: '' @ decimal (api_status r)))]),
        status = 500,
        headers = [(ascii ''Content-Type'', ascii ''application/json'')]\<rparr>,
       [Request_json, Fetch (gemini_call u p), ApiResponse_json,
        ConsoleError (ascii ''Gemini API error:'') (LValue errorBody),
        ConsoleError (ascii ''Error in function:'')
          (LExn (Error (ascii ''Gemini API error: '' @ decimal (api_status r))))])"
    by simp
next
  assume a: "accepted_part_000 ctx' leetText \<and> geminiApiUrl (GEMINI_API_KEY (env ctx')) = Inr u' \<and>
          prompt_part_000 leetText = Inr p' \<and> fetch rt' (gemini_call u' p') = Inr r"
  from assms have "after_fetch_part_000 r =
      (Inl (Error (ascii ''Gemini API error: '' @ decimal (api_status r) @ ascii '' ''
                   @ api_statusText r)), [])"
    by (simp add: after_fetch_part_000_def)
  then show "onRequest_part_000 rt' ctx' =
      (\<lparr>body = JSON_stringify
          (JObj [(ascii ''error'',
                  JStr (ascii ''Gemini API error: '' @ decimal (api_status r) @ ascii '' ''
                        @ api_statusText r))]),
        status = 500,
        headers = [(ascii ''Content-Type'', ascii ''application/json'')]\<rparr>,
       [Request_json, Fetch (gemini_call u' p'),
        ConsoleError (ascii ''Error in function:'')
          (LExn (Error (ascii ''Gemini API error: '' @ decimal (api_status r) @ ascii '' ''
                        @ api_statusText r)))])"
    by (simp add: onRequest_part_000_answered [OF a] catch_all_def error_response_def
          json_response_def)
qed

theorem upstream_failure_is_500_witness:
  "onRequest_chat (answering (Inr quota_exceeded))
          (incoming (ascii ''POST'') secret (Inr (translate_request ''H3110'' ''fromLeet'')))
     = (\<lparr>body = JSON_stringify (JObj [(ascii ''error'', JStr (ascii ''quota exceeded''))]), status = 500,
         headers = [(ascii ''Content-Type'', ascii ''application/json'')]\<rparr>,
        [Request_json,
         Fetch (gemini_call secret_url (fromLeet_head @ ascii ''H3110'' @ fromLeet_tail)),
         ApiResponse_json,
         ConsoleError (ascii ''Gemini API error:'')
           (LValue (JObj [(ascii ''error'', JObj [(ascii ''message'', JStr (ascii ''quota exceeded''))])])),
         ConsoleError (ascii ''Error in function:'') (LExn (Error (ascii ''quota exceeded'')))]) \<and>
   onRequest_part_000 (answering (Inr quota_exceeded))
          (incoming (ascii ''POST'') secret (Inr (translate_request ''H3110'' ''fromLeet'')))
     = (\<lparr>body = JSON_stringify
           (JObj [(ascii ''error'', JStr (ascii ''Gemini API error: 429 Too Many Requests''))]),
         status = 500, headers = [(ascii ''Content-Type'', ascii ''application/json'')]\<rparr>,
        [Request_json,
         Fetch (gemini_call secret_url (leet_head @ ascii ''H3110'' @ leet_tail)),
         ConsoleError (ascii ''Error in function:'')
           (LExn (Error (ascii ''Gemini API error: 429 Too Many Requests'')))])"
proof -
  let ?e = "JObj [(ascii ''error'', JObj [(ascii ''message'', JStr (ascii ''quota exceeded''))])]"
  let ?rt = "answering (Inr quota_exceeded)"
  let ?ctx = "incoming (ascii ''POST'') secret (Inr (translate_request ''H3110'' ''fromLeet''))"
  let ?p = "fromLeet_head @ ascii ''H3110'' @ fromLeet_tail"
  let ?q = "leet_head @ ascii ''H3110'' @ leet_tail"
  have ok: "\<not> api_ok quota_exceeded" and js: "api_json quota_exceeded = Inr ?e"
    and st: "api_status quota_exceeded = 429"
    and tx: "api_statusText quota_exceeded = ascii ''Too Many Requests''"
    by (simp_all add: quota_exceeded_def)
  have m: "upstream_message ?e = JStr (ascii ''quota exceeded'')"
    by (simp add: upstream_message_def lookup_def ascii_def)
  have t: "truthy (JStr (ascii ''quota exceeded''))"
    by (simp add: ascii_def)
  have d: "ascii ''Gemini API error: '' @ decimal 429 @ ascii '' '' @ ascii ''Too Many Requests''
      = ascii ''Gemini API error: 429 Too Many Requests''"
    by (simp add: decimal.simps ascii_def)
  have a: "accepted_chat ?ctx (JStr (ascii ''H3110'')) (JStr (ascii ''fromLeet''))"
    by (simp add: accepted_chat_def incoming_def secret_def translate_request_def lookup_def ascii_def)
  have b: "accepted_part_000 ?ctx (JStr (ascii ''H3110''))"
    by (simp add: accepted_part_000_def incoming_def secret_def translate_request_def lookup_def
          ascii_def)
  have u: "geminiApiUrl (GEMINI_API_KEY (env ?ctx)) = Inr secret_url"
    by (simp add: geminiApiUrl_def template_def incoming_def secret_def secret_url_def ascii_def)
  have p: "prompt_chat (JStr (ascii ''fromLeet'')) (JStr (ascii ''H3110'')) = Inr ?p"
    by (simp add: prompt_chat_def template_def ascii_def)
  have q: "prompt_part_000 (JStr (ascii ''H3110'')) = Inr ?q"
    by (simp add: prompt_part_000_def template_def)
  have f: "fetch ?rt c = Inr quota_exceeded" for c
    by (simp add: answering_def)
  have n: "\<not> nullish ?e" by simp
  note inst = upstream_failure_is_500 [OF ok, of ?ctx "JStr (ascii ''H3110'')"
      "JStr (ascii ''fromLeet'')" secret_url ?p ?rt ?ctx "JStr (ascii ''H3110'')" secret_url ?q ?rt]
  have ts: "truthy (upstream_message ?e) \<and> toString (upstream_message ?e) = Inr (ascii ''quota exceeded'')"
    by (simp only: m t toString.simps simp_thms)
  have A: "accepted_chat ?ctx (JStr (ascii ''H3110'')) (JStr (ascii ''fromLeet'')) \<and>
      geminiApiUrl (GEMINI_API_KEY (env ?ctx)) = Inr secret_url \<and>
      prompt_chat (JStr (ascii ''fromLeet'')) (JStr (ascii ''H3110'')) = Inr ?p \<and>
      fetch ?rt (gemini_call secret_url ?p) = Inr quota_exceeded"
    by (intro conjI a u p f)
  have B: "accepted_part_000 ?ctx (JStr (ascii ''H3110'')) \<and>
      geminiApiUrl (GEMINI_API_KEY (env ?ctx)) = Inr secret_url \<and>
      prompt_part_000 (JStr (ascii ''H3110'')) = Inr ?q \<and>
      fetch ?rt (gemini_call secret_url ?q) = Inr quota_exceeded"
    by (intro conjI b u q f)
  have E: "api_json quota_exceeded = Inr ?e \<and> \<not> nullish ?e"
    by (intro conjI js n)
  note chat = inst [THEN conjunct1, THEN mp, OF A, THEN conjunct2, THEN spec, of ?e, THEN mp, OF E]
  have 1: "onRequest_chat ?rt ?ctx =
      (\<lparr>body = JSON_stringify (JObj [(ascii ''error'', JStr (ascii ''quota exceeded''))]), status = 500,
         headers = [(ascii ''Content-Type'', ascii ''application/json'')]\<rparr>,
        [Request_json, Fetch (gemini_call secret_url ?p), ApiResponse_json,
         ConsoleError (ascii ''Gemini API error:'') (LValue ?e),
         ConsoleError (ascii ''Error in function:'') (LExn (Error (ascii ''quota exceeded'')))])"
    by (rule chat [THEN conjunct1, THEN spec, of "ascii ''quota exceeded''", THEN mp, OF ts])
  have "onRequest_part_000 ?rt ?ctx =
      (\<lparr>body = JSON_stringify
          (JObj [(ascii ''error'',
                  JStr (ascii ''Gemini API error: '' @ decimal (api_status quota_exceeded) @ ascii '' ''
                        @ api_statusText quota_exceeded))]),
        status = 500,
        headers = [(ascii ''Content-Type'', ascii ''application/json'')]\<rparr>,
       [Request_json, Fetch (gemini_call secret_url ?q),
        ConsoleError (ascii ''Error in function:'')
          (LExn (Error (ascii ''Gemini API error: '' @ decimal (api_status quota_exceeded) @ ascii '' ''
                        @ api_statusText quota_exceeded)))])"
    by (rule inst [THEN conjunct2, THEN mp, OF B])
  then have 2: "onRequest_part_000 ?rt ?ctx =
      (\<lparr>body = JSON_stringify
           (JObj [(ascii ''error'', JStr (ascii ''Gemini API error: 429 Too Many Requests''))]),
         status = 500, headers = [(ascii ''Content-Type'', ascii ''application/json'')]\<rparr>,
        [Request_json, Fetch (gemini_call secret_url ?q),
         ConsoleError (ascii ''Error in function:'')
           (LExn (Error (ascii ''Gemini API error: 429 Too Many Requests'')))])"
    by (simp only: st tx d)
  from 1 2 show ?thesis by (rule conjI)
qed

text \<open>
  C2, as stated, fails for the single-direction handler: with the upstream error body
  \<open>{ "error": { "message": "quota exceeded" } }\<close> and status 429 its \<open>error\<close> field is the
  status message, not the upstream's.
\<close>

theorem part_000_ignores_upstream_message:
  "\<not> api_ok quota_exceeded \<and>
   api_json quota_exceeded =
     Inr (JObj [(ascii ''error'', JObj [(ascii ''message'', JStr (ascii ''quota exceeded''))])]) \<and>
   body (fst (onRequest_part_000 (answering (Inr quota_exceeded))
          (incoming (ascii ''POST'') secret (Inr (JObj [(ascii ''text'', JStr (ascii ''H3110''))])))))
     = JSON_stringify (JObj [(ascii ''error'', JStr (ascii ''Gemini API error: 429 Too Many Requests''))]) \<and>
   ascii ''Gemini API error: 429 Too Many Requests'' \<noteq> ascii ''quota exceeded''"
  by (simp add: onRequest_part_000_def try_part_000_def after_fetch_part_000_def catch_all_def
        answering_def incoming_def secret_def quota_exceeded_def error_response_def
        json_response_def geminiApiUrl_def prompt_part_000_def template_def lookup_def
        decimal.simps ascii_def)

text \<open>
  C4. In the bidirectional handler an accepted request with mode \<open>toLeet\<close> makes exactly one
  upstream call, whose prompt is the English-to-leet template around the text, and one with
  mode \<open>fromLeet\<close> makes exactly one with the leet-to-English template. The text stands
  unchanged between two quote characters, and no call with one template equals a call with
  the other. (A key that cannot be converted to a string makes the URL's template literal
  throw; then no call is made.)
\<close>

theorem mode_selects_template:
  assumes "accepted_chat ctx (JStr t) mode"
  shows "(mode = JStr (ascii ''toLeet'') \<longrightarrow>
            fetches (snd (onRequest_chat rt ctx)) =
              (case geminiApiUrl (GEMINI_API_KEY (env ctx)) of
                 Inl e \<Rightarrow> []
               | Inr u \<Rightarrow> [gemini_call u (toLeet_head @ t @ toLeet_tail)])) \<and>
         (mode = JStr (ascii ''fromLeet'') \<longrightarrow>
            fetches (snd (onRequest_chat rt ctx)) =
              (case geminiApiUrl (GEMINI_API_KEY (env ctx)) of
                 Inl e \<Rightarrow> []
               | Inr u \<Rightarrow> [gemini_call u (fromLeet_head @ t @ fromLeet_tail)])) \<and>
         (\<forall>k k' a b. gemini_call k (toLeet_head @ a @ toLeet_tail)
                       \<noteq> gemini_call k' (fromLeet_head @ b @ fromLeet_tail)) \<and>
         last toLeet_head = 0x22 \<and> hd toLeet_tail = 0x22 \<and>
         last fromLeet_head = 0x22 \<and> hd fromLeet_tail = 0x22"
proof -
  have ne: "ascii ''fromLeet'' \<noteq> ascii ''toLeet''"
    by (simp add: ascii_def)
  have calls: "fetches (snd (onRequest_chat rt ctx)) =
      (case geminiApiUrl (GEMINI_API_KEY (env ctx)) of
         Inl e \<Rightarrow> []
       | Inr u \<Rightarrow>
           [gemini_call u
              (if mode = JStr (ascii ''toLeet'') then toLeet_head @ t @ toLeet_tail
               else fromLeet_head @ t @ fromLeet_tail)])"
    by (simp add: chat_fetches [OF assms] prompt_chat_def template_text split: sum.splits)
  have differ: "gemini_call k (toLeet_head @ a @ toLeet_tail)
      \<noteq> gemini_call k' (fromLeet_head @ b @ fromLeet_tail)" for k k' a b
    using gemini_call_prompt templates_differ by blast
  from ne calls have
    "mode = JStr (ascii ''toLeet'') \<longrightarrow>
       fetches (snd (onRequest_chat rt ctx)) =
         (case geminiApiUrl (GEMINI_API_KEY (env ctx)) of
            Inl e \<Rightarrow> []
          | Inr u \<Rightarrow> [gemini_call u (toLeet_head @ t @ toLeet_tail)])"
    "mode = JStr (ascii ''fromLeet'') \<longrightarrow>
       fetches (snd (onRequest_chat rt ctx)) =
         (case geminiApiUrl (GEMINI_API_KEY (env ctx)) of
            Inl e \<Rightarrow> []
          | Inr u \<Rightarrow> [gemini_call u (fromLeet_head @ t @ fromLeet_tail)])"
    by simp_all
  with differ templates_quote show ?thesis
    by blast
qed

theorem mode_selects_template_witness:
  "fetches (snd (onRequest_chat (answering (Inr (success (candidate_text (JStr (ascii ''H3110''))))))
       (incoming (ascii ''POST'') secret (Inr (translate_request ''Hello'' ''toLeet'')))))
     = [gemini_call secret_url (toLeet_head @ ascii ''Hello'' @ toLeet_tail)] \<and>
   fetches (snd (onRequest_chat (answering (Inr (success (candidate_text (JStr (ascii ''Hello''))))))
       (incoming (ascii ''POST'') secret (Inr (translate_request ''H3110'' ''fromLeet'')))))
     = [gemini_call secret_url (fromLeet_head @ ascii ''H3110'' @ fromLeet_tail)]"
proof -
  let ?to = "incoming (ascii ''POST'') secret (Inr (translate_request ''Hello'' ''toLeet''))"
  let ?from = "incoming (ascii ''POST'') secret (Inr (translate_request ''H3110'' ''fromLeet''))"
  have a: "accepted_chat ?to (JStr (ascii ''Hello'')) (JStr (ascii ''toLeet''))"
    by (simp add: accepted_chat_def incoming_def secret_def translate_request_def lookup_def ascii_def)
  have b: "accepted_chat ?from (JStr (ascii ''H3110'')) (JStr (ascii ''fromLeet''))"
    by (simp add: accepted_chat_def incoming_def secret_def translate_request_def lookup_def ascii_def)
  have k: "geminiApiUrl (GEMINI_API_KEY (env ?to)) = Inr secret_url"
    "geminiApiUrl (GEMINI_API_KEY (env ?from)) = Inr secret_url"
    by (simp_all add: geminiApiUrl_def template_def incoming_def secret_def secret_url_def ascii_def)
  from mode_selects_template [OF a] mode_selects_template [OF b] k show ?thesis
    by simp
qed

text \<open>
  C9. In the bidirectional handler a request whose mode is truthy but is not the string
  \<open>toLeet\<close> is not answered with 400. It makes the upstream call, and the prompt that the
  call carries is the leet-to-English template around the text. (The call is made once the
  URL and the prompt are built: a key or a text that cannot be converted to a string makes
  its template literal throw, and then the answer is 500.)
\<close>

theorem other_mode_uses_fromLeet:
  assumes "accepted_chat ctx inputText mode" and "mode \<noteq> JStr (ascii ''toLeet'')"
  shows "status (fst (onRequest_chat rt ctx)) \<noteq> 400 \<and>
         fetches (snd (onRequest_chat rt ctx)) =
           (case geminiApiUrl (GEMINI_API_KEY (env ctx)) of
              Inl e \<Rightarrow> []
            | Inr u \<Rightarrow>
                (case toString inputText of
                   Inl e \<Rightarrow> []
                 | Inr s \<Rightarrow> [gemini_call u (fromLeet_head @ s @ fromLeet_tail)])) \<and>
         (\<forall>u s. url (gemini_call u (fromLeet_head @ s @ fromLeet_tail)) = u \<and>
                 sent_prompt (gemini_call u (fromLeet_head @ s @ fromLeet_tail))
                   = Inr (JStr (fromLeet_head @ s @ fromLeet_tail)))"
proof (intro conjI allI)
  from chat_status [OF assms(1), of rt] show "status (fst (onRequest_chat rt ctx)) \<noteq> 400"
    by auto
next
  from assms(2) show "fetches (snd (onRequest_chat rt ctx)) =
      (case geminiApiUrl (GEMINI_API_KEY (env ctx)) of
         Inl e \<Rightarrow> []
       | Inr u \<Rightarrow>
           (case toString inputText of
              Inl e \<Rightarrow> []
            | Inr s \<Rightarrow> [gemini_call u (fromLeet_head @ s @ fromLeet_tail)]))"
    by (simp add: chat_fetches [OF assms(1)] prompt_chat_def template_def split: sum.splits)
next
  fix u s
  show "url (gemini_call u (fromLeet_head @ s @ fromLeet_tail)) = u"
    by (simp add: gemini_call_def)
next
  fix u s
  show "sent_prompt (gemini_call u (fromLeet_head @ s @ fromLeet_tail))
      = Inr (JStr (fromLeet_head @ s @ fromLeet_tail))"
    by (rule sent_prompt_gemini_call)
qed

theorem other_mode_uses_fromLeet_witness:
  "status (fst (onRequest_chat (answering (Inr (success (candidate_text (JStr (ascii ''Hello''))))))
       (incoming (ascii ''POST'') secret (Inr (translate_request ''H3110'' ''FromLeet''))))) \<noteq> 400 \<and>
   map url (fetches (snd (onRequest_chat (answering (Inr (success (candidate_text (JStr (ascii ''Hello''))))))
       (incoming (ascii ''POST'') secret (Inr (translate_request ''H3110'' ''FromLeet''))))))
     = [secret_url] \<and>
   map sent_prompt (fetches (snd (onRequest_chat
       (answering (Inr (success (candidate_text (JStr (ascii ''Hello''))))))
       (incoming (ascii ''POST'') secret (Inr (translate_request ''H3110'' ''FromLeet''))))))
     = [Inr (JStr (fromLeet_head @ ascii ''H3110'' @ fromLeet_tail))]"
proof -
  let ?ctx = "incoming (ascii ''POST'') secret (Inr (translate_request ''H3110'' ''FromLeet''))"
  have a: "accepted_chat ?ctx (JStr (ascii ''H3110'')) (JStr (ascii ''FromLeet''))"
    by (simp add: accepted_chat_def incoming_def secret_def translate_request_def lookup_def ascii_def)
  have m: "JStr (ascii ''FromLeet'') \<noteq> JStr (ascii ''toLeet'')"
    by (simp add: ascii_def)
  have k: "geminiApiUrl (GEMINI_API_KEY (env ?ctx)) = Inr secret_url"
    by (simp add: geminiApiUrl_def template_def incoming_def secret_def secret_url_def ascii_def)
  from other_mode_uses_fromLeet [OF a m] k show ?thesis
    by simp
qed

end
